theory Spec2Isabelle
  imports Main "HOL-Library.Word"
begin

unbundle bit_operations_syntax

section \<open>Go values: bytes, strings, errors\<close>

text \<open>
  A Go \<^verbatim>\<open>string\<close> and a \<^verbatim>\<open>[]byte\<close> are sequences of 8-bit bytes. The textual side is
  written as \<^typ>\<open>string\<close> (a list of 8-bit characters), the binary side as a list of
  8-bit words; \<^verbatim>\<open>uint64\<close> is a 64-bit word.
\<close>

type_synonym byte = "8 word"
type_synonym uint64 = "64 word"

text \<open>
  The error values that reach the caller. \<open>New\<close> is \<^verbatim>\<open>errors.New(msg)\<close>, \<open>Wrap err msg\<close> is
  \<^verbatim>\<open>errors.Wrap(err, msg)\<close>; the others are the error values of the standard library
  calls made by the decoder (\<^verbatim>\<open>strconv.NumError\<close> with its \<^verbatim>\<open>Err\<close>,
  \<^verbatim>\<open>hex.InvalidByteError\<close>, \<^verbatim>\<open>hex.ErrLength\<close>, \<^verbatim>\<open>json.SyntaxError\<close> with its
  message, \<open>InvalidCharacter c context\<close> for the \<^verbatim>\<open>json.SyntaxError\<close> whose message is
  "invalid character c context", \<^verbatim>\<open>json.UnmarshalTypeError\<close> with the kind of the JSON
  value and the Go target). \<open>Foreign\<close> stands for an error produced by code that is not
  part of this development (the codec of the block body, the YAML library).
\<close>

datatype num_err = ErrSyntax | ErrRange

datatype error =
    New string
  | Wrap error string
  | NumError string string num_err
  | InvalidByteError char
  | ErrLength
  | SyntaxError string
  | InvalidCharacter char string
  | UnmarshalTypeError string string
  | Foreign string

subsection \<open>strconv.ParseUint(s, 10, 64)\<close>

text \<open>
  The loop of \<^verbatim>\<open>strconv.ParseUint\<close> for base 10 and bit size 64. Each byte is a decimal
  digit, or a letter (whose value is at least 10, so not below the base), or anything
  else. The accumulator is a \<^verbatim>\<open>uint64\<close>, held here as a natural number below \<open>2 ^ 64\<close>
  with the wrap-around of the multiplication and of the addition written out;
  \<open>cutoff\<close> is \<^verbatim>\<open>maxUint64/10 + 1\<close>, and an overflow is a range error.
\<close>

definition lower :: "char \<Rightarrow> nat" where
  "lower c = (if 65 \<le> (of_char c :: nat) \<and> (of_char c :: nat) \<le> 90 then of_char c + 32 else of_char c)"

definition is_digit :: "char \<Rightarrow> bool" where
  "is_digit c = (48 \<le> (of_char c :: nat) \<and> (of_char c :: nat) \<le> 57)"

definition digit_value :: "char \<Rightarrow> nat option" where
  "digit_value c =
     (if is_digit c then Some (of_char c - 48)
      else if 97 \<le> lower c \<and> lower c \<le> 122 then Some (lower c - 97 + 10)
      else None)"

definition cutoff :: nat where
  "cutoff = 18446744073709551615 div 10 + 1"

definition maxVal :: nat where
  "maxVal = 18446744073709551615"

fun ParseUint_loop :: "nat \<Rightarrow> string \<Rightarrow> num_err + nat" where
  "ParseUint_loop n [] = Inr n"
| "ParseUint_loop n (c # cs) =
     (case digit_value c of
        None \<Rightarrow> Inl ErrSyntax
      | Some d \<Rightarrow>
          if d \<ge> 10 then Inl ErrSyntax
          else if n \<ge> cutoff then Inl ErrRange
          else let n' = (n * 10) mod 2 ^ 64; n1 = (n' + d) mod 2 ^ 64
               in if n1 < n' \<or> n1 > maxVal then Inl ErrRange
                  else ParseUint_loop n1 cs)"

definition ParseUint :: "string \<Rightarrow> error + uint64" where
  "ParseUint s =
     (if s = [] then Inl (NumError ''ParseUint'' s ErrSyntax)
      else case ParseUint_loop 0 s of
             Inl e \<Rightarrow> Inl (NumError ''ParseUint'' s e)
           | Inr n \<Rightarrow> Inr (of_nat n))"

subsection \<open>fmt.Sprintf("%d", n)\<close>

text \<open>The decimal digits of an unsigned number, the most significant first, with no
  sign and no leading zero; zero is \<^verbatim>\<open>0\<close>.\<close>

definition digit_char :: "nat \<Rightarrow> char" where
  "digit_char d = (''0123456789'') ! d"

function decimal :: "nat \<Rightarrow> string" where
  "decimal n = (if n < 10 then [digit_char n] else decimal (n div 10) @ [digit_char (n mod 10)])"
  by pat_completeness auto
termination
  by (relation "measure id") auto

definition Sprintf_d :: "uint64 \<Rightarrow> string" where
  "Sprintf_d n = decimal (unat n)"

subsection \<open>fmt.Sprintf("%#x", bytes), hex.DecodeString, strings.TrimPrefix\<close>

text \<open>
  \<^verbatim>\<open>%#x\<close> on a byte array prints \<^verbatim>\<open>0x\<close> and then two lower-case hexadecimal digits per
  byte, the high nibble first.
\<close>

definition hex_digit :: "byte \<Rightarrow> char" where
  "hex_digit d = (''0123456789abcdef'') ! unat d"

definition hex_byte :: "byte \<Rightarrow> string" where
  "hex_byte b = [hex_digit (drop_bit 4 b), hex_digit (b AND 15)]"

definition EncodeToString :: "byte list \<Rightarrow> string" where
  "EncodeToString bs = concat (map hex_byte bs)"

definition Sprintf_hex :: "byte list \<Rightarrow> string" where
  "Sprintf_hex bs = ''0x'' @ EncodeToString bs"

text \<open>
  \<^verbatim>\<open>hex.DecodeString\<close>: pairs of hexadecimal digits of either case, left to right; the
  first byte that is not a digit is reported; a lone last digit is a length error
  (after it has been checked to be a digit).
\<close>

definition fromHexChar :: "char \<Rightarrow> byte option" where
  "fromHexChar c =
     (let n = (of_char c :: nat) in
      if 48 \<le> n \<and> n \<le> 57 then Some (of_nat (n - 48))
      else if 97 \<le> n \<and> n \<le> 102 then Some (of_nat (n - 97 + 10))
      else if 65 \<le> n \<and> n \<le> 70 then Some (of_nat (n - 65 + 10))
      else None)"

fun DecodeString :: "string \<Rightarrow> error + byte list" where
  "DecodeString [] = Inr []"
| "DecodeString [c] =
     (case fromHexChar c of None \<Rightarrow> Inl (InvalidByteError c) | Some _ \<Rightarrow> Inl ErrLength)"
| "DecodeString (p # q # rest) =
     (case fromHexChar p of
        None \<Rightarrow> Inl (InvalidByteError p)
      | Some a \<Rightarrow>
          (case fromHexChar q of
             None \<Rightarrow> Inl (InvalidByteError q)
           | Some b \<Rightarrow>
               (case DecodeString rest of
                  Inl e \<Rightarrow> Inl e
                | Inr bs \<Rightarrow> Inr ((push_bit 4 a OR b) # bs))))"

definition HasPrefix :: "string \<Rightarrow> string \<Rightarrow> bool" where
  "HasPrefix s p = (length s \<ge> length p \<and> take (length p) s = p)"

definition TrimPrefix :: "string \<Rightarrow> string \<Rightarrow> string" where
  "TrimPrefix s p = (if HasPrefix s p then drop (length p) s else s)"

text \<open>The built-in \<^verbatim>\<open>copy(dst, src)\<close>: the first \<open>min (len dst) (len src)\<close> elements of
  \<open>dst\<close> are overwritten.\<close>

definition copy :: "'a list \<Rightarrow> 'a list \<Rightarrow> 'a list" where
  "copy dst src = (let n = min (length dst) (length src) in take n src @ drop n dst)"

section \<open>encoding/json: the validity scan\<close>

text \<open>
  \<^verbatim>\<open>json.Unmarshal\<close> first runs \<^verbatim>\<open>checkValid\<close> over the whole input: a state machine
  that is fed one byte at a time. \<open>step_fn\<close> (the field \<^verbatim>\<open>step\<close>) is the state function the scanner holds,
  \<open>parseState\<close> the stack of open objects and arrays (the innermost first), \<open>scan_err\<close> (the field \<^verbatim>\<open>err\<close>) the
  error once one has been found, \<open>endTop\<close> whether the top-level value is complete.
\<close>

datatype step_state =
    BeginValue | BeginValueOrEmpty | BeginStringOrEmpty | BeginString
  | EndValue | EndTop
  | InString | InStringEsc | InStringEscU nat
  | Neg | State1 | State0 | Dot | Dot0 | StateE | ESign | E0
  | Literal string string
  | StateError

datatype parse_state = ParseObjectKey | ParseObjectValue | ParseArrayValue

record scanner =
  step_fn :: step_state
  parseState :: "parse_state list"
  scan_err :: "error option"
  endTop :: bool

definition isSpace :: "char \<Rightarrow> bool" where
  "isSpace c = (c = CHR '' '' \<or> c = CHR 0x09 \<or> c = CHR 0x0D \<or> c = CHR 0x0A)"

definition maxNestingDepth :: nat where
  "maxNestingDepth = 10000"

definition scan_error :: "scanner \<Rightarrow> char \<Rightarrow> string \<Rightarrow> scanner" where
  "scan_error s c context = s\<lparr>step_fn := StateError, scan_err := Some (InvalidCharacter c context)\<rparr>"

definition pushParseState :: "scanner \<Rightarrow> char \<Rightarrow> parse_state \<Rightarrow> scanner" where
  "pushParseState s c newParseState =
     (let s = s\<lparr>parseState := newParseState # parseState s\<rparr> in
      if length (parseState s) \<le> maxNestingDepth then s
      else scan_error s c ''exceeded max depth'')"

definition popParseState :: "scanner \<Rightarrow> scanner" where
  "popParseState s =
     (let s = s\<lparr>parseState := tl (parseState s)\<rparr> in
      if parseState s = [] then s\<lparr>step_fn := EndTop, endTop := True\<rparr>
      else s\<lparr>step_fn := EndValue\<rparr>)"

definition stateEndTop :: "scanner \<Rightarrow> char \<Rightarrow> scanner" where
  "stateEndTop s c = (if \<not> isSpace c then scan_error s c ''after top-level value'' else s)"

definition stateEndValue :: "scanner \<Rightarrow> char \<Rightarrow> scanner" where
  "stateEndValue s c =
     (case parseState s of
        [] \<Rightarrow> stateEndTop (s\<lparr>step_fn := EndTop, endTop := True\<rparr>) c
      | ps # rest \<Rightarrow>
          if isSpace c then s\<lparr>step_fn := EndValue\<rparr>
          else (case ps of
             ParseObjectKey \<Rightarrow>
               if c = CHR '':'' then s\<lparr>parseState := ParseObjectValue # rest, step_fn := BeginValue\<rparr>
               else scan_error s c ''after object key''
           | ParseObjectValue \<Rightarrow>
               if c = CHR '','' then s\<lparr>parseState := ParseObjectKey # rest, step_fn := BeginString\<rparr>
               else if c = CHR ''}'' then popParseState s
               else scan_error s c ''after object key:value pair''
           | ParseArrayValue \<Rightarrow>
               if c = CHR '','' then s\<lparr>step_fn := BeginValue\<rparr>
               else if c = CHR '']'' then popParseState s
               else scan_error s c ''after array element''))"

definition stateBeginValue :: "scanner \<Rightarrow> char \<Rightarrow> scanner" where
  "stateBeginValue s c =
     (if isSpace c then s
      else if c = CHR ''{'' then pushParseState (s\<lparr>step_fn := BeginStringOrEmpty\<rparr>) c ParseObjectKey
      else if c = CHR ''['' then pushParseState (s\<lparr>step_fn := BeginValueOrEmpty\<rparr>) c ParseArrayValue
      else if c = CHR 0x22 then s\<lparr>step_fn := InString\<rparr>
      else if c = CHR ''-'' then s\<lparr>step_fn := Neg\<rparr>
      else if c = CHR ''0'' then s\<lparr>step_fn := State0\<rparr>
      else if c = CHR ''t'' then s\<lparr>step_fn := Literal ''rue'' ''true''\<rparr>
      else if c = CHR ''f'' then s\<lparr>step_fn := Literal ''alse'' ''false''\<rparr>
      else if c = CHR ''n'' then s\<lparr>step_fn := Literal ''ull'' ''null''\<rparr>
      else if 49 \<le> (of_char c :: nat) \<and> (of_char c :: nat) \<le> 57 then s\<lparr>step_fn := State1\<rparr>
      else scan_error s c ''looking for beginning of value'')"

definition stateBeginString :: "scanner \<Rightarrow> char \<Rightarrow> scanner" where
  "stateBeginString s c =
     (if isSpace c then s
      else if c = CHR 0x22 then s\<lparr>step_fn := InString\<rparr>
      else scan_error s c ''looking for beginning of object key string'')"

definition is_hex :: "char \<Rightarrow> bool" where
  "is_hex c = (let n = (of_char c :: nat) in
     (48 \<le> n \<and> n \<le> 57) \<or> (97 \<le> n \<and> n \<le> 102) \<or> (65 \<le> n \<and> n \<le> 70))"

definition state0 :: "scanner \<Rightarrow> char \<Rightarrow> scanner" where
  "state0 s c =
     (if c = CHR ''.'' then s\<lparr>step_fn := Dot\<rparr>
      else if c = CHR ''e'' \<or> c = CHR ''E'' then s\<lparr>step_fn := StateE\<rparr>
      else stateEndValue s c)"

definition stateESign :: "scanner \<Rightarrow> char \<Rightarrow> scanner" where
  "stateESign s c =
     (if is_digit c then s\<lparr>step_fn := E0\<rparr>
      else scan_error s c ''in exponent of numeric literal'')"

definition scan_step :: "scanner \<Rightarrow> char \<Rightarrow> scanner" where
  "scan_step s c =
     (case step_fn s of
        BeginValue \<Rightarrow> stateBeginValue s c
      | BeginValueOrEmpty \<Rightarrow>
          if isSpace c then s
          else if c = CHR '']'' then stateEndValue s c
          else stateBeginValue s c
      | BeginStringOrEmpty \<Rightarrow>
          if isSpace c then s
          else if c = CHR ''}'' then
            stateEndValue (s\<lparr>parseState := ParseObjectValue # tl (parseState s)\<rparr>) c
          else stateBeginString s c
      | BeginString \<Rightarrow> stateBeginString s c
      | EndValue \<Rightarrow> stateEndValue s c
      | EndTop \<Rightarrow> stateEndTop s c
      | InString \<Rightarrow>
          if c = CHR 0x22 then s\<lparr>step_fn := EndValue\<rparr>
          else if c = CHR 0x5C then s\<lparr>step_fn := InStringEsc\<rparr>
          else if (of_char c :: nat) < 32 then scan_error s c ''in string literal''
          else s
      | InStringEsc \<Rightarrow>
          if c \<in> set ''bfnrt'' \<or> c = CHR 0x5C \<or> c = CHR ''/'' \<or> c = CHR 0x22 then s\<lparr>step_fn := InString\<rparr>
          else if c = CHR ''u'' then s\<lparr>step_fn := InStringEscU 0\<rparr>
          else scan_error s c ''in string escape code''
      | InStringEscU k \<Rightarrow>
          if is_hex c then (if k \<ge> 3 then s\<lparr>step_fn := InString\<rparr> else s\<lparr>step_fn := InStringEscU (Suc k)\<rparr>)
          else scan_error s c (''in '' @ [CHR 0x5C] @ ''u hexadecimal character escape'')
      | Neg \<Rightarrow>
          if c = CHR ''0'' then s\<lparr>step_fn := State0\<rparr>
          else if 49 \<le> (of_char c :: nat) \<and> (of_char c :: nat) \<le> 57 then s\<lparr>step_fn := State1\<rparr>
          else scan_error s c ''in numeric literal''
      | State1 \<Rightarrow> if is_digit c then s else state0 s c
      | State0 \<Rightarrow> state0 s c
      | Dot \<Rightarrow>
          if is_digit c then s\<lparr>step_fn := Dot0\<rparr>
          else scan_error s c ''after decimal point in numeric literal''
      | Dot0 \<Rightarrow>
          if is_digit c then s
          else if c = CHR ''e'' \<or> c = CHR ''E'' then s\<lparr>step_fn := StateE\<rparr>
          else stateEndValue s c
      | StateE \<Rightarrow>
          if c = CHR ''+'' \<or> c = CHR ''-'' then s\<lparr>step_fn := ESign\<rparr>
          else stateESign s c
      | ESign \<Rightarrow> stateESign s c
      | E0 \<Rightarrow> if is_digit c then s else stateEndValue s c
      | Literal expect name \<Rightarrow>
          (case expect of
             [] \<Rightarrow> stateEndValue s c
           | x # rest \<Rightarrow>
               if c = x then (if rest = [] then s\<lparr>step_fn := EndValue\<rparr> else s\<lparr>step_fn := Literal rest name\<rparr>)
               else scan_error s c (''in literal '' @ name @ '' (expecting '' @ [CHR 0x27, x, CHR 0x27] @ '')''))
      | StateError \<Rightarrow> s)"

definition scanner_reset :: scanner where
  "scanner_reset = \<lparr>step_fn = BeginValue, parseState = [], scan_err = None, endTop = False\<rparr>"

text \<open>\<^verbatim>\<open>eof\<close>: the scanner is told that the input has ended. A value that is not
  complete once a last space has been fed is an unexpected end of input.\<close>

definition scan_eof :: "scanner \<Rightarrow> error option" where
  "scan_eof s =
     (if scan_err s \<noteq> None then scan_err s
      else if endTop s then None
      else let s = scan_step s CHR '' '' in
        if endTop s then None
        else if scan_err s = None then Some (SyntaxError ''unexpected end of JSON input'')
        else scan_err s)"

fun scan_bytes :: "scanner \<Rightarrow> string \<Rightarrow> error option" where
  "scan_bytes s [] = scan_eof s"
| "scan_bytes s (c # cs) =
     (let s = scan_step s c in
      if step_fn s = StateError then scan_err s else scan_bytes s cs)"

definition checkValid :: "string \<Rightarrow> error option" where
  "checkValid data = scan_bytes scanner_reset data"

section \<open>The beacon block and its textual representation\<close>

text \<open>Modelled from the spec: \<^verbatim>\<open>phase0.RootLength\<close>, the length of a root (the declaration of
  \<^verbatim>\<open>phase0.Root\<close> is not among the sources; the spec speaks of a 32-byte root and the
  struct tag of \<^verbatim>\<open>BeaconBlock\<close> says \<^verbatim>\<open>ssz-size:"32"\<close>).\<close>

definition RootLength :: nat where
  "RootLength = 32"

text \<open>
  \<^verbatim>\<open>BeaconBlock\<close>. The body is a pointer to a \<^verbatim>\<open>BeaconBlockBody\<close>, whose declaration and
  codec are not among the sources: its type is a parameter, and \<open>None\<close> is the nil
  pointer. The two roots are arrays of \<open>RootLength\<close> bytes, here lists with the length
  stated by \<open>wf_BeaconBlock\<close>.
\<close>

record 'body BeaconBlock =
  Slot :: uint64
  ProposerIndex :: uint64
  ParentRoot :: "byte list"
  StateRoot :: "byte list"
  Body :: "'body option"

definition roots_wf :: "'body BeaconBlock \<Rightarrow> bool" where
  "roots_wf b = (length (ParentRoot b) = RootLength \<and> length (StateRoot b) = RootLength)"

definition wf_BeaconBlock :: "'body BeaconBlock \<Rightarrow> bool" where
  "wf_BeaconBlock b = (roots_wf b \<and> Body b \<noteq> None)"

text \<open>\<^verbatim>\<open>beaconBlockJSON\<close> and \<^verbatim>\<open>beaconBlockYAML\<close>, the structs handed to the JSON and YAML
  libraries.\<close>

record 'body beaconBlockJSON =
  Slot_JSON :: string
  ProposerIndex_JSON :: string
  ParentRoot_JSON :: string
  StateRoot_JSON :: string
  Body_JSON :: "'body option"

record 'body beaconBlockYAML =
  Slot_YAML :: uint64
  ProposerIndex_YAML :: uint64
  ParentRoot_YAML :: string
  StateRoot_YAML :: string
  Body_YAML :: "'body option"

text \<open>The composite literal that \<^verbatim>\<open>MarshalJSON\<close> hands to \<^verbatim>\<open>json.Marshal\<close>.\<close>

definition beaconBlockJSON_of :: "'body BeaconBlock \<Rightarrow> 'body beaconBlockJSON" where
  "beaconBlockJSON_of b =
     \<lparr> Slot_JSON = Sprintf_d (Slot b),
       ProposerIndex_JSON = Sprintf_d (ProposerIndex b),
       ParentRoot_JSON = Sprintf_hex (ParentRoot b),
       StateRoot_JSON = Sprintf_hex (StateRoot b),
       Body_JSON = Body b \<rparr>"

text \<open>The composite literal that \<^verbatim>\<open>MarshalYAML\<close> hands to \<^verbatim>\<open>yaml.MarshalWithOptions\<close>.\<close>

definition beaconBlockYAML_of :: "'body BeaconBlock \<Rightarrow> 'body beaconBlockYAML" where
  "beaconBlockYAML_of b =
     \<lparr> Slot_YAML = Slot b,
       ProposerIndex_YAML = ProposerIndex b,
       ParentRoot_YAML = Sprintf_hex (ParentRoot b),
       StateRoot_YAML = Sprintf_hex (StateRoot b),
       Body_YAML = Body b \<rparr>"

text \<open>
  \<^verbatim>\<open>unpack\<close>. The receiver is passed in and returned: every assignment to a field of
  \<^verbatim>\<open>b\<close> is an update of the record, and each \<^verbatim>\<open>return\<close> gives the receiver as it is at
  that point together with the error (\<open>None\<close> is nil).
\<close>

definition unpack :: "'body BeaconBlock \<Rightarrow> 'body beaconBlockJSON \<Rightarrow> 'body BeaconBlock \<times> error option" where
  "unpack b j =
     (if Slot_JSON j = [] then (b, Some (New ''slot missing''))
      else case ParseUint (Slot_JSON j) of
        Inl err \<Rightarrow> (b, Some (Wrap err ''invalid value for slot''))
      | Inr slot \<Rightarrow>
     let b = b\<lparr>Slot := slot\<rparr> in
      if ProposerIndex_JSON j = [] then (b, Some (New ''proposer index missing''))
      else case ParseUint (ProposerIndex_JSON j) of
        Inl err \<Rightarrow> (b, Some (Wrap err ''invalid value for proposer index''))
      | Inr proposerIndex \<Rightarrow>
     let b = b\<lparr>ProposerIndex := proposerIndex\<rparr> in
      if ParentRoot_JSON j = [] then (b, Some (New ''parent root missing''))
      else case DecodeString (TrimPrefix (ParentRoot_JSON j) ''0x'') of
        Inl err \<Rightarrow> (b, Some (Wrap err ''invalid value for parent root''))
      | Inr parentRoot \<Rightarrow>
      if length parentRoot \<noteq> RootLength then (b, Some (New ''incorrect length for parent root''))
      else
     let b = b\<lparr>ParentRoot := copy (ParentRoot b) parentRoot\<rparr> in
      if StateRoot_JSON j = [] then (b, Some (New ''state root missing''))
      else case DecodeString (TrimPrefix (StateRoot_JSON j) ''0x'') of
        Inl err \<Rightarrow> (b, Some (Wrap err ''invalid value for state root''))
      | Inr stateRoot \<Rightarrow>
      if length stateRoot \<noteq> RootLength then (b, Some (New ''incorrect length for state root''))
      else
     let b = b\<lparr>StateRoot := copy (StateRoot b) stateRoot\<rparr> in
      if Body_JSON j = None then (b, Some (New ''body missing''))
      else
     let b = b\<lparr>Body := Body_JSON j\<rparr> in
      (b, None))"

section \<open>The textual tree and the library codecs\<close>

text \<open>
  A JSON or YAML document as the libraries see it once its syntax has been read: the
  textual tree. A number keeps its literal. The members of an object are in document
  order and may repeat a key.
\<close>

datatype tree =
    TNull
  | TBool bool
  | TNumber string
  | TString string
  | TArray "tree list"
  | TObject "(string \<times> tree) list"

subsection \<open>json.Unmarshal into beaconBlockJSON\<close>

text \<open>
  The names of the fields of \<^verbatim>\<open>beaconBlockJSON\<close>, from its \<^verbatim>\<open>json\<close> tags, in the order of
  declaration. A key of the document selects the field whose name it equals, or else the
  first field whose name it equals under Unicode simple case folding; for these names
  that is: letter by letter up to ASCII case, where \<^verbatim>\<open>s\<close> is also matched by U+017F and \<^verbatim>\<open>k\<close>
  by U+212A (in UTF-8).
\<close>

definition field_names :: "string list" where
  "field_names = [''slot'', ''proposer_index'', ''parent_root'', ''state_root'', ''body'']"

definition fold_code :: "char \<Rightarrow> nat" where
  "fold_code c = (if 97 \<le> (of_char c :: nat) \<and> (of_char c :: nat) \<le> 122 then of_char c - 32 else of_char c)"

fun equalFold :: "string \<Rightarrow> string \<Rightarrow> bool" where
  "equalFold [] key = (key = [])"
| "equalFold (n # ns) [] = False"
| "equalFold (n # ns) (k # ks) =
     (if fold_code k = fold_code n then equalFold ns ks
      else if fold_code n = 83 \<and> take 2 (k # ks) = [CHR 0xC5, CHR 0xBF] then equalFold ns (drop 1 ks)
      else if fold_code n = 75 \<and> take 3 (k # ks) = [CHR 0xE2, CHR 0x84, CHR 0xAA] then equalFold ns (drop 2 ks)
      else False)"

definition find_field :: "string \<Rightarrow> string option" where
  "find_field key =
     (if key \<in> set field_names then Some key
      else find (\<lambda>f. equalFold f key) field_names)"

definition zero_beaconBlockJSON :: "'body beaconBlockJSON" where
  "zero_beaconBlockJSON =
     \<lparr> Slot_JSON = [], ProposerIndex_JSON = [], ParentRoot_JSON = [], StateRoot_JSON = [],
       Body_JSON = None \<rparr>"

definition set_string_field :: "string \<Rightarrow> string \<Rightarrow> 'body beaconBlockJSON \<Rightarrow> 'body beaconBlockJSON" where
  "set_string_field f v j =
     (if f = ''slot'' then j\<lparr>Slot_JSON := v\<rparr>
      else if f = ''proposer_index'' then j\<lparr>ProposerIndex_JSON := v\<rparr>
      else if f = ''parent_root'' then j\<lparr>ParentRoot_JSON := v\<rparr>
      else if f = ''state_root'' then j\<lparr>StateRoot_JSON := v\<rparr>
      else j)"

fun kind_of :: "tree \<Rightarrow> string" where
  "kind_of TNull = ''null''"
| "kind_of (TBool _) = ''bool''"
| "kind_of (TNumber _) = ''number''"
| "kind_of (TString _) = ''string''"
| "kind_of (TArray _) = ''array''"
| "kind_of (TObject _) = ''object''"

text \<open>
  One member of the object. A string field takes a JSON string, is left as it is by
  \<^verbatim>\<open>null\<close>, and any other value is a type error, which is saved (the first one is
  kept) while decoding goes on. The body is a pointer to a type with its own
  \<^verbatim>\<open>UnmarshalJSON\<close>: \<^verbatim>\<open>null\<close> makes it nil, any other value is handed to that method (the
  parameter \<open>body_UnmarshalJSON\<close>, which receives the body already there, if any), whose
  error ends the decoding. A key that selects no field is skipped.
\<close>

definition store_member ::
  "('body option \<Rightarrow> tree \<Rightarrow> error + 'body) \<Rightarrow> 'body beaconBlockJSON \<times> error option \<Rightarrow> string \<times> tree
     \<Rightarrow> error + 'body beaconBlockJSON \<times> error option" where
  "store_member body_UnmarshalJSON st m =
     (let (j, saved) = st; (key, v) = m in
      case find_field key of
        None \<Rightarrow> Inr (j, saved)
      | Some f \<Rightarrow>
          if f = ''body'' then
            (case v of
               TNull \<Rightarrow> Inr (j\<lparr>Body_JSON := None\<rparr>, saved)
             | _ \<Rightarrow> (case body_UnmarshalJSON (Body_JSON j) v of
                        Inl e \<Rightarrow> Inl e
                      | Inr bd \<Rightarrow> Inr (j\<lparr>Body_JSON := Some bd\<rparr>, saved)))
          else
            (case v of
               TString str \<Rightarrow> Inr (set_string_field f str j, saved)
             | TNull \<Rightarrow> Inr (j, saved)
             | _ \<Rightarrow> Inr (j, case saved of
                              None \<Rightarrow> Some (UnmarshalTypeError (kind_of v)
                                       (''Go struct field beaconBlockJSON.'' @ f @ '' of type string''))
                            | Some e \<Rightarrow> Some e)))"

fun store_members ::
  "('body option \<Rightarrow> tree \<Rightarrow> error + 'body) \<Rightarrow> 'body beaconBlockJSON \<times> error option \<Rightarrow> (string \<times> tree) list
     \<Rightarrow> error + 'body beaconBlockJSON \<times> error option" where
  "store_members body_UnmarshalJSON st [] = Inr st"
| "store_members body_UnmarshalJSON st (m # ms) =
     (case store_member body_UnmarshalJSON st m of
        Inl e \<Rightarrow> Inl e
      | Inr st' \<Rightarrow> store_members body_UnmarshalJSON st' ms)"

text \<open>The document as a whole: an object is stored member by member into the zero
  struct, \<^verbatim>\<open>null\<close> leaves the struct as it is, anything else is a (saved) type error.\<close>

definition decode_beaconBlockJSON ::
  "('body option \<Rightarrow> tree \<Rightarrow> error + 'body) \<Rightarrow> tree \<Rightarrow> error + 'body beaconBlockJSON" where
  "decode_beaconBlockJSON body_UnmarshalJSON t =
     (case (case t of
              TObject ms \<Rightarrow> store_members body_UnmarshalJSON (zero_beaconBlockJSON, None) ms
            | TNull \<Rightarrow> Inr (zero_beaconBlockJSON, None)
            | _ \<Rightarrow> Inr (zero_beaconBlockJSON,
                       Some (UnmarshalTypeError (kind_of t) ''Go value of type altair.beaconBlockJSON''))) of
        Inl e \<Rightarrow> Inl e
      | Inr (j, Some e) \<Rightarrow> Inl e
      | Inr (j, None) \<Rightarrow> Inr j)"

text \<open>
  \<^verbatim>\<open>json.Unmarshal(input, &beaconBlockJSON)\<close>: the validity scan, then the decoding of
  the document. Reading the syntax of a valid document into its tree is the parameter
  \<open>parse\<close>.
\<close>

definition json_Unmarshal ::
  "(string \<Rightarrow> tree) \<Rightarrow> ('body option \<Rightarrow> tree \<Rightarrow> error + 'body) \<Rightarrow> string \<Rightarrow> error + 'body beaconBlockJSON" where
  "json_Unmarshal parse body_UnmarshalJSON input =
     (case checkValid input of
        Some e \<Rightarrow> Inl e
      | None \<Rightarrow> decode_beaconBlockJSON body_UnmarshalJSON (parse input))"

subsection \<open>json.Marshal of beaconBlockJSON, the YAML encoder on beaconBlockYAML\<close>

text \<open>
  The encoders walk the struct in the order of declaration: a Go string becomes a
  string of the document, a \<^verbatim>\<open>uint64\<close> a number (its decimal digits), a nil pointer
  \<^verbatim>\<open>null\<close>, and the body what its own marshaller gives (a parameter, which may fail).
  Writing the tree out as text is the parameter \<open>render\<close>.
\<close>

definition encode_body :: "('body \<Rightarrow> error + tree) \<Rightarrow> 'body option \<Rightarrow> error + tree" where
  "encode_body body_Marshal body = (case body of None \<Rightarrow> Inr TNull | Some bd \<Rightarrow> body_Marshal bd)"

definition encode_beaconBlockJSON :: "('body \<Rightarrow> error + tree) \<Rightarrow> 'body beaconBlockJSON \<Rightarrow> error + tree" where
  "encode_beaconBlockJSON body_MarshalJSON j =
     (case encode_body body_MarshalJSON (Body_JSON j) of
        Inl e \<Rightarrow> Inl e
      | Inr body \<Rightarrow>
          Inr (TObject [(''slot'', TString (Slot_JSON j)),
                        (''proposer_index'', TString (ProposerIndex_JSON j)),
                        (''parent_root'', TString (ParentRoot_JSON j)),
                        (''state_root'', TString (StateRoot_JSON j)),
                        (''body'', body)]))"

definition json_Marshal ::
  "(tree \<Rightarrow> string) \<Rightarrow> ('body \<Rightarrow> error + tree) \<Rightarrow> 'body beaconBlockJSON \<Rightarrow> error + string" where
  "json_Marshal render body_MarshalJSON j =
     (case encode_beaconBlockJSON body_MarshalJSON j of
        Inl e \<Rightarrow> Inl e
      | Inr t \<Rightarrow> Inr (render t))"

definition encode_beaconBlockYAML :: "('body \<Rightarrow> error + tree) \<Rightarrow> 'body beaconBlockYAML \<Rightarrow> error + tree" where
  "encode_beaconBlockYAML body_MarshalYAML y =
     (case encode_body body_MarshalYAML (Body_YAML y) of
        Inl e \<Rightarrow> Inl e
      | Inr body \<Rightarrow>
          Inr (TObject [(''slot'', TNumber (decimal (unat (Slot_YAML y)))),
                        (''proposer_index'', TNumber (decimal (unat (ProposerIndex_YAML y)))),
                        (''parent_root'', TString (ParentRoot_YAML y)),
                        (''state_root'', TString (StateRoot_YAML y)),
                        (''body'', body)]))"

definition yaml_MarshalWithOptions ::
  "(tree \<Rightarrow> string) \<Rightarrow> ('body \<Rightarrow> error + tree) \<Rightarrow> 'body beaconBlockYAML \<Rightarrow> error + string" where
  "yaml_MarshalWithOptions render_flow body_MarshalYAML y =
     (case encode_beaconBlockYAML body_MarshalYAML y of
        Inl e \<Rightarrow> Inl e
      | Inr t \<Rightarrow> Inr (render_flow t))"

text \<open>\<^verbatim>\<open>bytes.ReplaceAll\<close> where the old and the new text are one byte each, as at its
  only call.\<close>

definition ReplaceAll :: "string \<Rightarrow> char \<Rightarrow> char \<Rightarrow> string" where
  "ReplaceAll s old new = map (\<lambda>c. if c = old then new else c) s"

section \<open>The methods of BeaconBlock\<close>

definition MarshalJSON ::
  "(tree \<Rightarrow> string) \<Rightarrow> ('body \<Rightarrow> error + tree) \<Rightarrow> 'body BeaconBlock \<Rightarrow> error + string" where
  "MarshalJSON render body_MarshalJSON b = json_Marshal render body_MarshalJSON (beaconBlockJSON_of b)"

definition UnmarshalJSON ::
  "(string \<Rightarrow> tree) \<Rightarrow> ('body option \<Rightarrow> tree \<Rightarrow> error + 'body) \<Rightarrow> 'body BeaconBlock \<Rightarrow> string
     \<Rightarrow> 'body BeaconBlock \<times> error option" where
  "UnmarshalJSON parse body_UnmarshalJSON b input =
     (case json_Unmarshal parse body_UnmarshalJSON input of
        Inl e \<Rightarrow> (b, Some (Wrap e ''invalid JSON''))
      | Inr j \<Rightarrow> unpack b j)"

definition MarshalYAML ::
  "(tree \<Rightarrow> string) \<Rightarrow> ('body \<Rightarrow> error + tree) \<Rightarrow> 'body BeaconBlock \<Rightarrow> error + string" where
  "MarshalYAML render_flow body_MarshalYAML b =
     (case yaml_MarshalWithOptions render_flow body_MarshalYAML (beaconBlockYAML_of b) of
        Inl e \<Rightarrow> Inl e
      | Inr yamlBytes \<Rightarrow> Inr (ReplaceAll yamlBytes (CHR 0x22) (CHR 0x27)))"

text \<open>\<^verbatim>\<open>UnmarshalYAML\<close> decodes into the JSON struct; the call of the YAML library is the
  parameter \<open>yaml_Unmarshal\<close>, and its error is returned as it is.\<close>

definition UnmarshalYAML ::
  "(string \<Rightarrow> error + 'body beaconBlockJSON) \<Rightarrow> 'body BeaconBlock \<Rightarrow> string
     \<Rightarrow> 'body BeaconBlock \<times> error option" where
  "UnmarshalYAML yaml_Unmarshal b input =
     (case yaml_Unmarshal input of
        Inl e \<Rightarrow> (b, Some e)
      | Inr j \<Rightarrow> unpack b j)"

text \<open>
  \<^verbatim>\<open>json.Unmarshal(input, &block)\<close>, as the callers and the tests decode a block: the
  validity scan of the whole input comes first, and only a valid document reaches the
  \<^verbatim>\<open>UnmarshalJSON\<close> method (with the text of the value, without the space around it).
\<close>

definition trim_space :: "string \<Rightarrow> string" where
  "trim_space s = rev (dropWhile isSpace (rev (dropWhile isSpace s)))"

definition json_Unmarshal_BeaconBlock ::
  "(string \<Rightarrow> tree) \<Rightarrow> ('body option \<Rightarrow> tree \<Rightarrow> error + 'body) \<Rightarrow> 'body BeaconBlock \<Rightarrow> string
     \<Rightarrow> 'body BeaconBlock \<times> error option" where
  "json_Unmarshal_BeaconBlock parse body_UnmarshalJSON b input =
     (case checkValid input of
        Some e \<Rightarrow> (b, Some e)
      | None \<Rightarrow> UnmarshalJSON parse body_UnmarshalJSON b (trim_space input))"

section \<open>Example values\<close>

text \<open>A block, the zero value of the block type, and the JSON text and tree of the block,
  with a body type of one value whose JSON form is the empty object.\<close>

definition example_root :: "byte list" where
  "example_root = replicate 32 0"

definition example_block :: "unit BeaconBlock" where
  "example_block =
     \<lparr> Slot = 1, ProposerIndex = 2, ParentRoot = example_root, StateRoot = example_root,
       Body = Some () \<rparr>"

definition zero_block :: "unit BeaconBlock" where
  "zero_block =
     \<lparr> Slot = 0, ProposerIndex = 0, ParentRoot = example_root, StateRoot = example_root,
       Body = None \<rparr>"

definition example_hex :: string where
  "example_hex = ''0x0000000000000000000000000000000000000000000000000000000000000000''"

definition example_tree :: tree where
  "example_tree =
     TObject [(''slot'', TString ''1''), (''proposer_index'', TString ''2''),
              (''parent_root'', TString example_hex), (''state_root'', TString example_hex),
              (''body'', TObject [])]"

definition example_text :: string where
  \<open>example_text = ''{"slot":"1","proposer_index":"2","parent_root":"0x0000000000000000000000000000000000000000000000000000000000000000","state_root":"0x0000000000000000000000000000000000000000000000000000000000000000","body":{}}''\<close>

definition unit_MarshalJSON :: "unit \<Rightarrow> error + tree" where
  "unit_MarshalJSON bd = Inr (TObject [])"

definition unit_UnmarshalJSON :: "unit option \<Rightarrow> tree \<Rightarrow> error + unit" where
  "unit_UnmarshalJSON receiver t = Inr ()"

section \<open>The checks of unpack, named\<close>

text \<open>
  The conditions under which \<^verbatim>\<open>unpack\<close> gets past a field, with the value it then stores:
  the text of the field is not empty and decodes (to \<open>RootLength\<close> bytes, for a root).
\<close>

definition slot_ok :: "'body beaconBlockJSON \<Rightarrow> uint64 \<Rightarrow> bool" where
  "slot_ok j s = (Slot_JSON j \<noteq> [] \<and> ParseUint (Slot_JSON j) = Inr s)"

definition proposer_ok :: "'body beaconBlockJSON \<Rightarrow> uint64 \<Rightarrow> bool" where
  "proposer_ok j p = (ProposerIndex_JSON j \<noteq> [] \<and> ParseUint (ProposerIndex_JSON j) = Inr p)"

definition root_ok :: "string \<Rightarrow> byte list \<Rightarrow> bool" where
  "root_ok str bs = (str \<noteq> [] \<and> DecodeString (TrimPrefix str ''0x'') = Inr bs \<and> length bs = RootLength)"

text \<open>Whether a member of an object selects the field \<open>f\<close>, and the text of a string field
  by its name.\<close>

definition selects :: "string \<Rightarrow> (string \<times> tree) list \<Rightarrow> bool" where
  "selects f ms = list_ex (\<lambda>m. find_field (fst m) = Some f) ms"

definition get_string_field :: "string \<Rightarrow> 'body beaconBlockJSON \<Rightarrow> string" where
  "get_string_field f j =
     (if f = ''slot'' then Slot_JSON j
      else if f = ''proposer_index'' then ProposerIndex_JSON j
      else if f = ''parent_root'' then ParentRoot_JSON j
      else if f = ''state_root'' then StateRoot_JSON j
      else [])"

text \<open>The form of a number and of a root that the encoder writes: decimal digits with no
  leading zero; \<^verbatim>\<open>0x\<close> and lower-case hexadecimal digits.\<close>

definition canonical_decimal :: "string \<Rightarrow> bool" where
  "canonical_decimal s = (s \<noteq> [] \<and> list_all is_digit s \<and> (hd s \<noteq> CHR ''0'' \<or> s = ''0''))"

definition is_lower_hex :: "char \<Rightarrow> bool" where
  "is_lower_hex c = (let n = (of_char c :: nat) in (48 \<le> n \<and> n \<le> 57) \<or> (97 \<le> n \<and> n \<le> 102))"

definition canonical_hex :: "string \<Rightarrow> bool" where
  "canonical_hex s = (take 2 s = ''0x'' \<and> list_all is_lower_hex (drop 2 s))"

text \<open>More example values: a struct whose slot is good and whose proposer index is
  missing; one with no slot and a parent root of 31 bytes; one with a bad slot and an
  empty proposer index; the example block with its slot written with a leading zero.\<close>

definition example_partial :: "unit beaconBlockJSON" where
  "example_partial =
     \<lparr> Slot_JSON = ''7'', ProposerIndex_JSON = [], ParentRoot_JSON = example_hex,
       StateRoot_JSON = example_hex, Body_JSON = Some () \<rparr>"

definition example_short_root :: "unit beaconBlockJSON" where
  "example_short_root =
     \<lparr> Slot_JSON = [], ProposerIndex_JSON = ''2'', ParentRoot_JSON = take 64 example_hex,
       StateRoot_JSON = example_hex, Body_JSON = Some () \<rparr>"

definition example_bad_slot :: "unit beaconBlockJSON" where
  "example_bad_slot =
     \<lparr> Slot_JSON = ''x'', ProposerIndex_JSON = [], ParentRoot_JSON = example_hex,
       StateRoot_JSON = example_hex, Body_JSON = Some () \<rparr>"

definition leading_zero_tree :: tree where
  "leading_zero_tree =
     TObject [(''slot'', TString ''01''), (''proposer_index'', TString ''2''),
              (''parent_root'', TString example_hex), (''state_root'', TString example_hex),
              (''body'', TObject [])]"

definition leading_zero_text :: string where
  \<open>leading_zero_text = ''{"slot":"01","proposer_index":"2","parent_root":"0x0000000000000000000000000000000000000000000000000000000000000000","state_root":"0x0000000000000000000000000000000000000000000000000000000000000000","body":{}}''\<close>

text \<open>Two documents that lack the member \<^verbatim>\<open>proposer_index\<close>, one with a good slot and one
  with a slot that is not a number, and structs with a parent root of 31 and of 33
  bytes.\<close>

definition missing_proposer_members :: "(string \<times> tree) list" where
  "missing_proposer_members =
     [(''slot'', TString ''7''), (''parent_root'', TString example_hex),
      (''state_root'', TString example_hex), (''body'', TObject [])]"


definition bad_slot_members :: "(string \<times> tree) list" where
  "bad_slot_members =
     [(''slot'', TString ''x''), (''parent_root'', TString example_hex),
      (''state_root'', TString example_hex), (''body'', TObject [])]"




definition example_root31 :: "unit beaconBlockJSON" where
  "example_root31 =
     \<lparr> Slot_JSON = ''1'', ProposerIndex_JSON = ''2'', ParentRoot_JSON = take 64 example_hex,
       StateRoot_JSON = example_hex, Body_JSON = Some () \<rparr>"

definition example_root33 :: "unit beaconBlockJSON" where
  "example_root33 =
     \<lparr> Slot_JSON = ''1'', ProposerIndex_JSON = ''2'', ParentRoot_JSON = example_hex @ ''00'',
       StateRoot_JSON = example_hex, Body_JSON = Some () \<rparr>"

section \<open>Properties of the library functions\<close>

declare decimal.simps [simp del]

subsection \<open>Decimal numbers\<close>

lemma ParseUint_loop_append:
  "ParseUint_loop n (xs @ ys) =
     (case ParseUint_loop n xs of Inl e \<Rightarrow> Inl e | Inr m \<Rightarrow> ParseUint_loop m ys)"
  by (induction xs arbitrary: n) (auto simp: Let_def split: option.splits)

lemma digit_enum: "(d::nat) < 10 \<Longrightarrow> d \<in> {9, 8, 7, 6, 5, 4, 3, 2, 1, 0}"
  by simp arith

lemma digit_value_digit_char: "d < 10 \<Longrightarrow> digit_value (digit_char d) = Some d"
  using digit_enum [of d] by (auto simp: digit_value_def digit_char_def is_digit_def)

lemma is_digit_digit_char: "d < 10 \<Longrightarrow> is_digit (digit_char d)"
  using digit_enum [of d] by (auto simp: digit_char_def is_digit_def)

lemma ParseUint_loop_digit:
  assumes "d < 10" "n * 10 + d < 2 ^ 64"
  shows "ParseUint_loop n [digit_char d] = Inr (n * 10 + d)"
proof -
  have "n < cutoff" using assms by (simp add: cutoff_def)
  moreover have "n * 10 < 2 ^ 64" using assms by simp
  ultimately show ?thesis using assms
    by (simp add: digit_value_digit_char Let_def maxVal_def)
qed

lemma ParseUint_loop_decimal:
  "n < 2 ^ 64 \<Longrightarrow> ParseUint_loop 0 (decimal n) = Inr n"
proof (induction n rule: decimal.induct)
  case (1 n)
  show ?case
  proof (cases "n < 10")
    case True
    then show ?thesis
      using ParseUint_loop_digit [of n 0] "1.prems" by (simp add: decimal.simps [of n])
  next
    case False
    have "n div 10 < 2 ^ 64" using "1.prems" by simp
    then have "ParseUint_loop 0 (decimal (n div 10)) = Inr (n div 10)"
      using "1.IH" False by simp
    moreover have "ParseUint_loop (n div 10) [digit_char (n mod 10)] = Inr (n div 10 * 10 + n mod 10)"
      by (rule ParseUint_loop_digit) (use "1.prems" in simp_all)
    ultimately show ?thesis
      using False by (simp add: decimal.simps [of n] ParseUint_loop_append)
  qed
qed

lemma decimal_not_Nil: "decimal n \<noteq> []"
  by (simp add: decimal.simps [of n])

lemma decimal_digits: "list_all is_digit (decimal n)"
  by (induction n rule: decimal.induct) (subst decimal.simps, simp add: is_digit_digit_char)

lemma unat_uint64_less: "unat (w :: uint64) < 2 ^ 64"
  using unsigned_less [of w] by simp

lemma ParseUint_Sprintf_d: "ParseUint (Sprintf_d w) = Inr w"
proof -
  have "ParseUint_loop 0 (decimal (unat w)) = Inr (unat w)"
    by (rule ParseUint_loop_decimal) (rule unat_uint64_less)
  then show ?thesis
    by (simp add: ParseUint_def Sprintf_d_def decimal_not_Nil)
qed

lemma Sprintf_d_not_Nil: "Sprintf_d w \<noteq> []"
  by (simp add: Sprintf_d_def decimal_not_Nil)

subsection \<open>Hexadecimal byte strings\<close>

lemma fifteen_mask: "(15::byte) = mask 4"
  by (simp add: mask_eq_exp_minus_1)

lemma nibbles_join: "push_bit 4 (drop_bit 4 b) OR (b AND 15) = (b :: byte)"
  unfolding fifteen_mask
  by (rule bit_word_eqI) (auto simp: bit_simps)

lemma nibble_enum: "(k::nat) < 16 \<Longrightarrow> k \<in> {15, 14, 13, 12, 11, 10, 9, 8, 7, 6, 5, 4, 3, 2, 1, 0}"
  by simp arith

lemma drop_bit_4_less: "unat (drop_bit 4 (b :: byte)) < 16"
proof -
  have "unat b < 256" using unsigned_less [of b] by simp
  then show ?thesis by (simp add: drop_bit_eq_div unat_div)
qed

lemma and_15_less: "unat ((b :: byte) AND 15) < 16"
  unfolding fifteen_mask
  by (simp flip: take_bit_eq_mask add: take_bit_eq_mod unat_mod)

lemma fromHexChar_table:
  "(n::nat) < 16 \<Longrightarrow> fromHexChar ((''0123456789abcdef'') ! n) = Some (of_nat n)"
  using nibble_enum [of n] by (auto simp: fromHexChar_def)

lemma fromHexChar_hex_digit: "unat d < 16 \<Longrightarrow> fromHexChar (hex_digit d) = Some d"
  using fromHexChar_table [of "unat d"] by (simp add: hex_digit_def)

lemma DecodeString_EncodeToString: "DecodeString (EncodeToString bs) = Inr bs"
  by (induction bs)
     (simp_all add: EncodeToString_def hex_byte_def fromHexChar_hex_digit drop_bit_4_less
        and_15_less nibbles_join)

lemma length_EncodeToString: "length (EncodeToString bs) = 2 * length bs"
  by (induction bs) (simp_all add: EncodeToString_def hex_byte_def)

lemma DecodeString_length: "DecodeString s = Inr bs \<Longrightarrow> length s = 2 * length bs"
  by (induction s arbitrary: bs rule: DecodeString.induct) (auto split: option.splits sum.splits)

lemma TrimPrefix_0x: "TrimPrefix (''0x'' @ s) ''0x'' = s"
  by (simp add: TrimPrefix_def HasPrefix_def)

lemma TrimPrefix_Sprintf_hex: "TrimPrefix (Sprintf_hex bs) ''0x'' = EncodeToString bs"
  by (simp add: Sprintf_hex_def TrimPrefix_def HasPrefix_def)

lemma Sprintf_hex_not_Nil: "Sprintf_hex bs \<noteq> []"
  by (simp add: Sprintf_hex_def)

lemma copy_same_length: "length dst = length src \<Longrightarrow> copy dst src = src"
  by (simp add: copy_def)

section \<open>The decoder of the block\<close>

lemma checkValid_empty: "checkValid [] = Some (SyntaxError ''unexpected end of JSON input'')"
  by (simp add: checkValid_def scanner_reset_def scan_eof_def scan_step_def stateBeginValue_def
      isSpace_def)

lemma unpack_ok:
  assumes "Slot_JSON j \<noteq> []" "ParseUint (Slot_JSON j) = Inr s"
    and "ProposerIndex_JSON j \<noteq> []" "ParseUint (ProposerIndex_JSON j) = Inr p"
    and "ParentRoot_JSON j \<noteq> []" "DecodeString (TrimPrefix (ParentRoot_JSON j) ''0x'') = Inr pr"
        "length pr = RootLength"
    and "StateRoot_JSON j \<noteq> []" "DecodeString (TrimPrefix (StateRoot_JSON j) ''0x'') = Inr sr"
        "length sr = RootLength"
    and "Body_JSON j = Some bd"
  shows "unpack b j =
     (b\<lparr>Slot := s, ProposerIndex := p, ParentRoot := copy (ParentRoot b) pr,
        StateRoot := copy (StateRoot b) sr, Body := Some bd\<rparr>, None)"
  using assms by (simp add: unpack_def Let_def)

lemma unpack_beaconBlockJSON_of:
  assumes "roots_wf b" "wf_BeaconBlock v"
  shows "unpack b (beaconBlockJSON_of v) = (v, None)"
proof -
  obtain bd where bd: "Body v = Some bd" using assms(2) by (auto simp: wf_BeaconBlock_def)
  have len: "length (ParentRoot v) = RootLength" "length (StateRoot v) = RootLength"
    "length (ParentRoot b) = RootLength" "length (StateRoot b) = RootLength"
    using assms by (simp_all add: wf_BeaconBlock_def roots_wf_def)
  have "unpack b (beaconBlockJSON_of v) =
     (b\<lparr>Slot := Slot v, ProposerIndex := ProposerIndex v,
        ParentRoot := copy (ParentRoot b) (ParentRoot v),
        StateRoot := copy (StateRoot b) (StateRoot v), Body := Some bd\<rparr>, None)"
    by (rule unpack_ok)
       (simp_all add: beaconBlockJSON_of_def Sprintf_d_not_Nil ParseUint_Sprintf_d
          Sprintf_hex_not_Nil TrimPrefix_Sprintf_hex DecodeString_EncodeToString len bd)
  then show ?thesis
    using len bd by (simp add: copy_same_length)
qed

text \<open>
  C8. Decoding zero bytes of JSON fails with the error "unexpected end of JSON input",
  before any field is looked at: the validity scan of \<^verbatim>\<open>json.Unmarshal\<close> reports it, the
  \<^verbatim>\<open>UnmarshalJSON\<close> method returns it wrapped as "invalid JSON" without calling
  \<^verbatim>\<open>unpack\<close>, and \<^verbatim>\<open>json.Unmarshal\<close> on a block returns it as it is without calling the
  method. The receiver is not touched. This holds whatever the reader of the syntax and
  the decoder of the body are.
\<close>

theorem UnmarshalJSON_empty_input:
  "UnmarshalJSON parse body_UnmarshalJSON b [] =
     (b, Some (Wrap (SyntaxError ''unexpected end of JSON input'') ''invalid JSON''))
   \<and> json_Unmarshal_BeaconBlock parse body_UnmarshalJSON b [] =
     (b, Some (SyntaxError ''unexpected end of JSON input''))"
  by (simp add: UnmarshalJSON_def json_Unmarshal_def json_Unmarshal_BeaconBlock_def
      checkValid_empty)

lemma fromHexChar_is_hex: "is_hex c \<Longrightarrow> \<exists>d. fromHexChar c = Some d"
  by (auto simp: is_hex_def fromHexChar_def Let_def)

lemma DecodeString_hex:
  "list_all is_hex s \<Longrightarrow> even (length s) \<Longrightarrow> \<exists>bs. DecodeString s = Inr bs \<and> 2 * length bs = length s"
proof (induction s rule: DecodeString.induct)
  case 1
  then show ?case by simp
next
  case (2 c)
  then show ?case by simp
next
  case (3 p q rest)
  from "3.prems" obtain a d where "fromHexChar p = Some a" "fromHexChar q = Some d"
    using fromHexChar_is_hex [of p] fromHexChar_is_hex [of q] by auto
  moreover from "3.prems" "3.IH" [OF this] obtain bs where "DecodeString rest = Inr bs" "2 * length bs = length rest"
    by auto
  ultimately show ?case by simp
qed

lemma TrimPrefix_hex: "list_all is_hex s \<Longrightarrow> TrimPrefix s ''0x'' = s"
proof (cases s)
  case Nil
  then show ?thesis by (simp add: TrimPrefix_def HasPrefix_def)
next
  case (Cons c cs)
  assume "list_all is_hex s"
  with Cons show ?thesis
    by (cases cs) (auto simp: TrimPrefix_def HasPrefix_def is_hex_def)
qed

lemma unpack_ParentRoot_prefix:
  "list_all is_hex s \<Longrightarrow> s \<noteq> [] \<Longrightarrow> unpack b (j\<lparr>ParentRoot_JSON := ''0x'' @ s\<rparr>) = unpack b (j\<lparr>ParentRoot_JSON := s\<rparr>)"
  using TrimPrefix_0x [of s] by (auto simp: unpack_def Let_def TrimPrefix_hex split: sum.splits)

lemma unpack_StateRoot_prefix:
  "list_all is_hex s \<Longrightarrow> s \<noteq> [] \<Longrightarrow> unpack b (j\<lparr>StateRoot_JSON := ''0x'' @ s\<rparr>) = unpack b (j\<lparr>StateRoot_JSON := s\<rparr>)"
  using TrimPrefix_0x [of s] by (auto simp: unpack_def Let_def TrimPrefix_hex split: sum.splits)

lemma example_Sprintf_hex: "Sprintf_hex example_root = example_hex"
  by code_simp
lemma example_Sprintf_d: "Sprintf_d 1 = ''1''" "Sprintf_d 2 = ''2''"
  by (simp_all add: Sprintf_d_def decimal.simps digit_char_def)

lemma decode_encoded_tree:
  assumes "bt \<noteq> TNull" "body_UnmarshalJSON None bt = Inr bd"
  shows "decode_beaconBlockJSON body_UnmarshalJSON
           (TObject [(''slot'', TString s1), (''proposer_index'', TString s2),
                     (''parent_root'', TString s3), (''state_root'', TString s4), (''body'', bt)])
         = Inr \<lparr> Slot_JSON = s1, ProposerIndex_JSON = s2, ParentRoot_JSON = s3, StateRoot_JSON = s4,
                 Body_JSON = Some bd \<rparr>"
  using assms
  by (cases bt) (simp_all add: decode_beaconBlockJSON_def store_member_def find_field_def field_names_def
      set_string_field_def zero_beaconBlockJSON_def)

text \<open>
  C1. For every well-formed block \<open>v\<close> (both roots of 32 bytes, a body), decoding the text
  that \<^verbatim>\<open>MarshalJSON\<close> produces gives \<open>v\<close> again, whatever the receiver held before (its
  roots are arrays of 32 bytes). The hypotheses on the parameters say what the code that
  is not part of this development does: the body's own codec reproduces the body from
  what it wrote (which is not \<^verbatim>\<open>null\<close>), and the text written for the tree \<open>t\<close> of the block
  is valid JSON that reads back as \<open>t\<close>.
\<close>

theorem MarshalJSON_UnmarshalJSON_roundtrip:
  assumes wf: "wf_BeaconBlock v" and tgt: "roots_wf b"
    and body: "Body v = Some bd" "body_MarshalJSON bd = Inr bt" "bt \<noteq> TNull"
      "body_UnmarshalJSON None bt = Inr bd"
    and t: "t = TObject [(''slot'', TString (Sprintf_d (Slot v))),
                         (''proposer_index'', TString (Sprintf_d (ProposerIndex v))),
                         (''parent_root'', TString (Sprintf_hex (ParentRoot v))),
                         (''state_root'', TString (Sprintf_hex (StateRoot v))),
                         (''body'', bt)]"
    and lib: "checkValid (render t) = None" "parse (render t) = t"
  shows "MarshalJSON render body_MarshalJSON v = Inr (render t)
       \<and> UnmarshalJSON parse body_UnmarshalJSON b (render t) = (v, None)"
proof -
  have enc: "encode_beaconBlockJSON body_MarshalJSON (beaconBlockJSON_of v) = Inr t"
    using body t by (simp add: encode_beaconBlockJSON_def encode_body_def beaconBlockJSON_of_def)
  have dec: "decode_beaconBlockJSON body_UnmarshalJSON t = Inr (beaconBlockJSON_of v)"
    unfolding t using decode_encoded_tree [of bt body_UnmarshalJSON bd] body
    by (simp add: beaconBlockJSON_of_def)
  have "json_Unmarshal parse body_UnmarshalJSON (render t) = Inr (beaconBlockJSON_of v)"
    using lib dec by (simp add: json_Unmarshal_def)
  then have "UnmarshalJSON parse body_UnmarshalJSON b (render t) = (v, None)"
    using unpack_beaconBlockJSON_of [OF tgt wf] by (simp add: UnmarshalJSON_def)
  moreover have "MarshalJSON render body_MarshalJSON v = Inr (render t)"
    using enc by (simp add: MarshalJSON_def json_Marshal_def)
  ultimately show ?thesis by simp
qed

lemma example_checkValid: "checkValid example_text = None"
  by code_simp

theorem MarshalJSON_UnmarshalJSON_roundtrip_witness:
  "wf_BeaconBlock example_block \<and> roots_wf zero_block
   \<and> checkValid example_text = None
   \<and> MarshalJSON (\<lambda>t. example_text) unit_MarshalJSON example_block = Inr example_text
   \<and> UnmarshalJSON (\<lambda>s. example_tree) unit_UnmarshalJSON zero_block example_text = (example_block, None)"
proof -
  have wf: "wf_BeaconBlock example_block"
    by (simp add: wf_BeaconBlock_def roots_wf_def example_block_def example_root_def RootLength_def)
  have tgt: "roots_wf zero_block"
    by (simp add: roots_wf_def zero_block_def example_root_def RootLength_def)
  have t: "example_tree = TObject [(''slot'', TString (Sprintf_d (Slot example_block))),
                         (''proposer_index'', TString (Sprintf_d (ProposerIndex example_block))),
                         (''parent_root'', TString (Sprintf_hex (ParentRoot example_block))),
                         (''state_root'', TString (Sprintf_hex (StateRoot example_block))),
                         (''body'', TObject [])]"
    by (simp add: example_tree_def example_block_def example_Sprintf_hex example_Sprintf_d)
  show ?thesis
    using MarshalJSON_UnmarshalJSON_roundtrip [of example_block zero_block "()" unit_MarshalJSON "TObject []"
        unit_UnmarshalJSON example_tree "\<lambda>t. example_text" "\<lambda>s. example_tree", OF wf tgt _ _ _ _ t]
      wf tgt example_checkValid
    by (simp add: example_block_def unit_MarshalJSON_def unit_UnmarshalJSON_def)
qed

subsection \<open>The checks of unpack, one by one\<close>

lemma unpack_slot_missing:
  "Slot_JSON j = [] \<Longrightarrow> unpack b j = (b, Some (New ''slot missing''))"
  by (simp add: unpack_def)

lemma unpack_slot_invalid:
  "Slot_JSON j \<noteq> [] \<Longrightarrow> ParseUint (Slot_JSON j) = Inl e
     \<Longrightarrow> unpack b j = (b, Some (Wrap e ''invalid value for slot''))"
  by (simp add: unpack_def)

lemma unpack_proposer_missing:
  "slot_ok j s \<Longrightarrow> ProposerIndex_JSON j = []
     \<Longrightarrow> unpack b j = (b\<lparr>Slot := s\<rparr>, Some (New ''proposer index missing''))"
  by (simp add: unpack_def slot_ok_def)

lemma unpack_proposer_invalid:
  "slot_ok j s \<Longrightarrow> ProposerIndex_JSON j \<noteq> [] \<Longrightarrow> ParseUint (ProposerIndex_JSON j) = Inl e
     \<Longrightarrow> unpack b j = (b\<lparr>Slot := s\<rparr>, Some (Wrap e ''invalid value for proposer index''))"
  by (simp add: unpack_def slot_ok_def)

lemma unpack_parent_missing:
  "slot_ok j s \<Longrightarrow> proposer_ok j p \<Longrightarrow> ParentRoot_JSON j = []
     \<Longrightarrow> unpack b j = (b\<lparr>Slot := s, ProposerIndex := p\<rparr>, Some (New ''parent root missing''))"
  by (simp add: unpack_def slot_ok_def proposer_ok_def)

lemma unpack_parent_invalid:
  "slot_ok j s \<Longrightarrow> proposer_ok j p \<Longrightarrow> ParentRoot_JSON j \<noteq> []
     \<Longrightarrow> DecodeString (TrimPrefix (ParentRoot_JSON j) ''0x'') = Inl e
     \<Longrightarrow> unpack b j = (b\<lparr>Slot := s, ProposerIndex := p\<rparr>, Some (Wrap e ''invalid value for parent root''))"
  by (simp add: unpack_def slot_ok_def proposer_ok_def)

lemma unpack_parent_length:
  "slot_ok j s \<Longrightarrow> proposer_ok j p \<Longrightarrow> ParentRoot_JSON j \<noteq> []
     \<Longrightarrow> DecodeString (TrimPrefix (ParentRoot_JSON j) ''0x'') = Inr pr \<Longrightarrow> length pr \<noteq> RootLength
     \<Longrightarrow> unpack b j = (b\<lparr>Slot := s, ProposerIndex := p\<rparr>, Some (New ''incorrect length for parent root''))"
  by (simp add: unpack_def slot_ok_def proposer_ok_def)

lemma unpack_state_missing:
  "slot_ok j s \<Longrightarrow> proposer_ok j p \<Longrightarrow> root_ok (ParentRoot_JSON j) pr \<Longrightarrow> StateRoot_JSON j = []
     \<Longrightarrow> unpack b j = (b\<lparr>Slot := s, ProposerIndex := p, ParentRoot := copy (ParentRoot b) pr\<rparr>,
           Some (New ''state root missing''))"
  by (simp add: unpack_def slot_ok_def proposer_ok_def root_ok_def)

lemma unpack_state_invalid:
  "slot_ok j s \<Longrightarrow> proposer_ok j p \<Longrightarrow> root_ok (ParentRoot_JSON j) pr \<Longrightarrow> StateRoot_JSON j \<noteq> []
     \<Longrightarrow> DecodeString (TrimPrefix (StateRoot_JSON j) ''0x'') = Inl e
     \<Longrightarrow> unpack b j = (b\<lparr>Slot := s, ProposerIndex := p, ParentRoot := copy (ParentRoot b) pr\<rparr>,
           Some (Wrap e ''invalid value for state root''))"
  by (simp add: unpack_def slot_ok_def proposer_ok_def root_ok_def)

lemma unpack_state_length:
  "slot_ok j s \<Longrightarrow> proposer_ok j p \<Longrightarrow> root_ok (ParentRoot_JSON j) pr \<Longrightarrow> StateRoot_JSON j \<noteq> []
     \<Longrightarrow> DecodeString (TrimPrefix (StateRoot_JSON j) ''0x'') = Inr sr \<Longrightarrow> length sr \<noteq> RootLength
     \<Longrightarrow> unpack b j = (b\<lparr>Slot := s, ProposerIndex := p, ParentRoot := copy (ParentRoot b) pr\<rparr>,
           Some (New ''incorrect length for state root''))"
  by (simp add: unpack_def slot_ok_def proposer_ok_def root_ok_def)

lemma unpack_body_missing:
  "slot_ok j s \<Longrightarrow> proposer_ok j p \<Longrightarrow> root_ok (ParentRoot_JSON j) pr
     \<Longrightarrow> root_ok (StateRoot_JSON j) sr \<Longrightarrow> Body_JSON j = None
     \<Longrightarrow> unpack b j = (b\<lparr>Slot := s, ProposerIndex := p, ParentRoot := copy (ParentRoot b) pr,
             StateRoot := copy (StateRoot b) sr\<rparr>, Some (New ''body missing''))"
  by (simp add: unpack_def slot_ok_def proposer_ok_def root_ok_def)

lemma unpack_accepts:
  "slot_ok j s \<Longrightarrow> proposer_ok j p \<Longrightarrow> root_ok (ParentRoot_JSON j) pr
     \<Longrightarrow> root_ok (StateRoot_JSON j) sr \<Longrightarrow> Body_JSON j = Some bd
     \<Longrightarrow> unpack b j = (b\<lparr>Slot := s, ProposerIndex := p, ParentRoot := copy (ParentRoot b) pr,
             StateRoot := copy (StateRoot b) sr, Body := Some bd\<rparr>, None)"
  by (simp add: unpack_def slot_ok_def proposer_ok_def root_ok_def)

text \<open>The outcome of unpack, by the first check that fails.\<close>

lemma unpack_outcomes:
  assumes u: "unpack b j = (b', r)"
  shows
  "(b' = b \<and> (r = Some (New ''slot missing'') \<or> (\<exists>c. r = Some (Wrap c ''invalid value for slot''))))
   \<or> (\<exists>s. slot_ok j s \<and> b' = b\<lparr>Slot := s\<rparr>
         \<and> (r = Some (New ''proposer index missing'')
              \<or> (\<exists>c. r = Some (Wrap c ''invalid value for proposer index''))))
   \<or> (\<exists>s p. slot_ok j s \<and> proposer_ok j p \<and> b' = b\<lparr>Slot := s, ProposerIndex := p\<rparr>
         \<and> (r = Some (New ''parent root missing'')
              \<or> (\<exists>c. r = Some (Wrap c ''invalid value for parent root''))
              \<or> r = Some (New ''incorrect length for parent root'')))
   \<or> (\<exists>s p pr. slot_ok j s \<and> proposer_ok j p \<and> root_ok (ParentRoot_JSON j) pr
         \<and> b' = b\<lparr>Slot := s, ProposerIndex := p, ParentRoot := copy (ParentRoot b) pr\<rparr>
         \<and> (r = Some (New ''state root missing'')
              \<or> (\<exists>c. r = Some (Wrap c ''invalid value for state root''))
              \<or> r = Some (New ''incorrect length for state root'')))
   \<or> (\<exists>s p pr sr. slot_ok j s \<and> proposer_ok j p \<and> root_ok (ParentRoot_JSON j) pr
         \<and> root_ok (StateRoot_JSON j) sr
         \<and> b' = b\<lparr>Slot := s, ProposerIndex := p, ParentRoot := copy (ParentRoot b) pr,
                    StateRoot := copy (StateRoot b) sr\<rparr>
         \<and> r = Some (New ''body missing''))
   \<or> (\<exists>s p pr sr bd. slot_ok j s \<and> proposer_ok j p \<and> root_ok (ParentRoot_JSON j) pr
         \<and> root_ok (StateRoot_JSON j) sr \<and> Body_JSON j = Some bd
         \<and> b' = b\<lparr>Slot := s, ProposerIndex := p, ParentRoot := copy (ParentRoot b) pr,
                    StateRoot := copy (StateRoot b) sr, Body := Some bd\<rparr>
         \<and> r = None)"
  (is "?D1 \<or> ?D2 \<or> ?D3 \<or> ?D4 \<or> ?D5 \<or> ?D6")
proof (cases "Slot_JSON j = []")
  case True
  then have ?D1 using unpack_slot_missing [of j b] u by simp
  then show ?thesis by (rule disjI1)
next
  case s0: False
  show ?thesis
  proof (cases "ParseUint (Slot_JSON j)")
    case (Inl e)
    then have ?D1 using unpack_slot_invalid [OF s0, of e b] u by simp
    then show ?thesis by (rule disjI1)
  next
    case (Inr s)
    then have s: "slot_ok j s" using s0 by (simp add: slot_ok_def)
    show ?thesis
    proof (cases "ProposerIndex_JSON j = []")
      case True
      then have "b' = b\<lparr>Slot := s\<rparr>" "r = Some (New ''proposer index missing'')"
        using unpack_proposer_missing [OF s, of b] u by simp_all
      then have ?D2 using s by blast
      then show ?thesis by (rule disjI2 [OF disjI1])
    next
      case p0: False
      show ?thesis
      proof (cases "ParseUint (ProposerIndex_JSON j)")
        case (Inl e)
        then have "b' = b\<lparr>Slot := s\<rparr>" "r = Some (Wrap e ''invalid value for proposer index'')"
          using unpack_proposer_invalid [OF s p0, of e b] u by simp_all
        then have ?D2 using s by blast
      then show ?thesis by (rule disjI2 [OF disjI1])
      next
        case (Inr p)
        then have p: "proposer_ok j p" using p0 by (simp add: proposer_ok_def)
        show ?thesis
        proof (cases "ParentRoot_JSON j = []")
          case True
          then have "b' = b\<lparr>Slot := s, ProposerIndex := p\<rparr>" "r = Some (New ''parent root missing'')"
            using unpack_parent_missing [OF s p, of b] u by simp_all
          then have ?D3 using s p by blast
      then show ?thesis by (rule disjI2 [OF disjI2 [OF disjI1]])
        next
          case pr0: False
          show ?thesis
          proof (cases "DecodeString (TrimPrefix (ParentRoot_JSON j) ''0x'')")
            case (Inl e)
            then have "b' = b\<lparr>Slot := s, ProposerIndex := p\<rparr>"
              "r = Some (Wrap e ''invalid value for parent root'')"
              using unpack_parent_invalid [OF s p pr0, of e b] u by simp_all
            then have ?D3 using s p by blast
      then show ?thesis by (rule disjI2 [OF disjI2 [OF disjI1]])
          next
            case (Inr pr)
            show ?thesis
            proof (cases "length pr = RootLength")
              case False
              then have "b' = b\<lparr>Slot := s, ProposerIndex := p\<rparr>"
                "r = Some (New ''incorrect length for parent root'')"
                using unpack_parent_length [OF s p pr0 Inr, of b] u by simp_all
              then have ?D3 using s p by blast
      then show ?thesis by (rule disjI2 [OF disjI2 [OF disjI1]])
            next
              case True
              then have pr: "root_ok (ParentRoot_JSON j) pr" using pr0 Inr by (simp add: root_ok_def)
              show ?thesis
              proof (cases "StateRoot_JSON j = []")
                case True
                then have "b' = b\<lparr>Slot := s, ProposerIndex := p, ParentRoot := copy (ParentRoot b) pr\<rparr>"
                  "r = Some (New ''state root missing'')"
                  using unpack_state_missing [OF s p pr, of b] u by simp_all
                then have ?D4 using s p pr by blast
      then show ?thesis by (rule disjI2 [OF disjI2 [OF disjI2 [OF disjI1]]])
              next
                case sr0: False
                show ?thesis
                proof (cases "DecodeString (TrimPrefix (StateRoot_JSON j) ''0x'')")
                  case (Inl e)
                  then have "b' = b\<lparr>Slot := s, ProposerIndex := p, ParentRoot := copy (ParentRoot b) pr\<rparr>"
                    "r = Some (Wrap e ''invalid value for state root'')"
                    using unpack_state_invalid [OF s p pr sr0, of e b] u by simp_all
                  then have ?D4 using s p pr by blast
      then show ?thesis by (rule disjI2 [OF disjI2 [OF disjI2 [OF disjI1]]])
                next
                  case (Inr sr)
                  show ?thesis
                  proof (cases "length sr = RootLength")
                    case False
                    then have "b' = b\<lparr>Slot := s, ProposerIndex := p, ParentRoot := copy (ParentRoot b) pr\<rparr>"
                      "r = Some (New ''incorrect length for state root'')"
                      using unpack_state_length [OF s p pr sr0 Inr, of b] u by simp_all
                    then have ?D4 using s p pr by blast
      then show ?thesis by (rule disjI2 [OF disjI2 [OF disjI2 [OF disjI1]]])
                  next
                    case True
                    then have sr: "root_ok (StateRoot_JSON j) sr" using sr0 Inr by (simp add: root_ok_def)
                    show ?thesis
                    proof (cases "Body_JSON j")
                      case None
                      then have "b' = b\<lparr>Slot := s, ProposerIndex := p, ParentRoot := copy (ParentRoot b) pr,
                          StateRoot := copy (StateRoot b) sr\<rparr>" "r = Some (New ''body missing'')"
                        using unpack_body_missing [OF s p pr sr, of b] u by simp_all
                      then have ?D5 using s p pr sr by blast
      then show ?thesis by (rule disjI2 [OF disjI2 [OF disjI2 [OF disjI2 [OF disjI1]]]])
                    next
                      case (Some bd)
                      then have "b' = b\<lparr>Slot := s, ProposerIndex := p, ParentRoot := copy (ParentRoot b) pr,
                          StateRoot := copy (StateRoot b) sr, Body := Some bd\<rparr>" "r = None"
                        using unpack_accepts [OF s p pr sr, of bd b] u by simp_all
                      then have ?D6 using s p pr sr Some by blast
      then show ?thesis by (rule disjI2 [OF disjI2 [OF disjI2 [OF disjI2 [OF disjI2]]]])
                    qed
                  qed
                qed
              qed
            qed
          qed
        qed
      qed
    qed
  qed
qed


lemma example_ParseUint: "ParseUint ''7'' = Inr 7" "ParseUint ''2'' = Inr 2" "ParseUint ''1'' = Inr 1"
  "ParseUint ''01'' = Inr 1" "ParseUint ''x'' = Inl (NumError ''ParseUint'' ''x'' ErrSyntax)"
  by (simp_all add: ParseUint_def digit_value_def is_digit_def cutoff_def maxVal_def lower_def)

text \<open>
  C4 as stated fails: with a good slot and no proposer index, \<^verbatim>\<open>unpack\<close> returns an error
  and the receiver's slot has already been overwritten.
\<close>

theorem unpack_partial_update_counterexample:
  "unpack zero_block example_partial = (zero_block\<lparr>Slot := 7\<rparr>, Some (New ''proposer index missing''))
   \<and> zero_block\<lparr>Slot := 7\<rparr> \<noteq> zero_block"
proof -
  have "slot_ok example_partial 7"
    by (simp add: slot_ok_def example_partial_def example_ParseUint)
  then have "unpack zero_block example_partial = (zero_block\<lparr>Slot := 7\<rparr>, Some (New ''proposer index missing''))"
    by (rule unpack_proposer_missing) (simp add: example_partial_def)
  moreover have "Slot (zero_block\<lparr>Slot := 7\<rparr>) \<noteq> Slot zero_block"
    by (simp add: zero_block_def)
  then have "zero_block\<lparr>Slot := 7\<rparr> \<noteq> zero_block" by metis
  ultimately show ?thesis by simp
qed

text \<open>
  C4, amended. When the library call of \<^verbatim>\<open>UnmarshalJSON\<close> or \<^verbatim>\<open>UnmarshalYAML\<close> fails, the
  receiver is returned unchanged. When \<^verbatim>\<open>unpack\<close> fails at a field, the fields before it (in
  the order slot, proposer index, parent root, state root) hold their decoded values and
  the failing field and every later one, the body always, are as they were before the
  call; so the receiver is unchanged only when the failure is at the slot.
\<close>

theorem error_keeps_later_fields:
  "(json_Unmarshal parse body_UnmarshalJSON input = Inl e0
      \<longrightarrow> UnmarshalJSON parse body_UnmarshalJSON b input = (b, Some (Wrap e0 ''invalid JSON'')))
   \<and> (yaml_Unmarshal input = Inl e0 \<longrightarrow> UnmarshalYAML yaml_Unmarshal b input = (b, Some e0))
   \<and> (unpack b j = (b', Some e) \<longrightarrow>
        Body b' = Body b
      \<and> ((b' = b \<and> (e = New ''slot missing'' \<or> (\<exists>c. e = Wrap c ''invalid value for slot'')))
         \<or> (\<exists>s. slot_ok j s \<and> b' = b\<lparr>Slot := s\<rparr>
               \<and> (e = New ''proposer index missing'' \<or> (\<exists>c. e = Wrap c ''invalid value for proposer index'')))
         \<or> (\<exists>s p. slot_ok j s \<and> proposer_ok j p \<and> b' = b\<lparr>Slot := s, ProposerIndex := p\<rparr>
               \<and> (e = New ''parent root missing'' \<or> (\<exists>c. e = Wrap c ''invalid value for parent root'')
                    \<or> e = New ''incorrect length for parent root''))
         \<or> (\<exists>s p pr. slot_ok j s \<and> proposer_ok j p \<and> root_ok (ParentRoot_JSON j) pr
               \<and> b' = b\<lparr>Slot := s, ProposerIndex := p, ParentRoot := copy (ParentRoot b) pr\<rparr>
               \<and> (e = New ''state root missing'' \<or> (\<exists>c. e = Wrap c ''invalid value for state root'')
                    \<or> e = New ''incorrect length for state root''))
         \<or> (\<exists>s p pr sr. slot_ok j s \<and> proposer_ok j p \<and> root_ok (ParentRoot_JSON j) pr
               \<and> root_ok (StateRoot_JSON j) sr
               \<and> b' = b\<lparr>Slot := s, ProposerIndex := p, ParentRoot := copy (ParentRoot b) pr,
                          StateRoot := copy (StateRoot b) sr\<rparr>
               \<and> e = New ''body missing'')))"
proof (intro conjI impI)
  assume "json_Unmarshal parse body_UnmarshalJSON input = Inl e0"
  then show "UnmarshalJSON parse body_UnmarshalJSON b input = (b, Some (Wrap e0 ''invalid JSON''))"
    by (simp add: UnmarshalJSON_def)
next
  assume "yaml_Unmarshal input = Inl e0"
  then show "UnmarshalYAML yaml_Unmarshal b input = (b, Some e0)"
    by (simp add: UnmarshalYAML_def)
next
  assume u: "unpack b j = (b', Some e)"
  from unpack_outcomes [OF u] show "Body b' = Body b"
    by (elim disjE exE conjE) simp_all
next
  assume u: "unpack b j = (b', Some e)"
  from unpack_outcomes [OF u]
  show "(b' = b \<and> (e = New ''slot missing'' \<or> (\<exists>c. e = Wrap c ''invalid value for slot'')))
         \<or> (\<exists>s. slot_ok j s \<and> b' = b\<lparr>Slot := s\<rparr>
               \<and> (e = New ''proposer index missing'' \<or> (\<exists>c. e = Wrap c ''invalid value for proposer index'')))
         \<or> (\<exists>s p. slot_ok j s \<and> proposer_ok j p \<and> b' = b\<lparr>Slot := s, ProposerIndex := p\<rparr>
               \<and> (e = New ''parent root missing'' \<or> (\<exists>c. e = Wrap c ''invalid value for parent root'')
                    \<or> e = New ''incorrect length for parent root''))
         \<or> (\<exists>s p pr. slot_ok j s \<and> proposer_ok j p \<and> root_ok (ParentRoot_JSON j) pr
               \<and> b' = b\<lparr>Slot := s, ProposerIndex := p, ParentRoot := copy (ParentRoot b) pr\<rparr>
               \<and> (e = New ''state root missing'' \<or> (\<exists>c. e = Wrap c ''invalid value for state root'')
                    \<or> e = New ''incorrect length for state root''))
         \<or> (\<exists>s p pr sr. slot_ok j s \<and> proposer_ok j p \<and> root_ok (ParentRoot_JSON j) pr
               \<and> root_ok (StateRoot_JSON j) sr
               \<and> b' = b\<lparr>Slot := s, ProposerIndex := p, ParentRoot := copy (ParentRoot b) pr,
                          StateRoot := copy (StateRoot b) sr\<rparr>
               \<and> e = New ''body missing'')"
    by simp
qed

theorem error_keeps_later_fields_witness:
  "json_Unmarshal (\<lambda>s. example_tree) unit_UnmarshalJSON [] = Inl (SyntaxError ''unexpected end of JSON input'')
   \<and> UnmarshalJSON (\<lambda>s. example_tree) unit_UnmarshalJSON zero_block []
       = (zero_block, Some (Wrap (SyntaxError ''unexpected end of JSON input'') ''invalid JSON''))
   \<and> unpack zero_block example_partial = (zero_block\<lparr>Slot := 7\<rparr>, Some (New ''proposer index missing''))
   \<and> Body (zero_block\<lparr>Slot := 7\<rparr>) = Body zero_block"
proof -
  have a: "json_Unmarshal (\<lambda>s. example_tree) unit_UnmarshalJSON [] = Inl (SyntaxError ''unexpected end of JSON input'')"
    by (simp add: json_Unmarshal_def checkValid_empty)
  have "slot_ok example_partial 7"
    by (simp add: slot_ok_def example_partial_def example_ParseUint)
  then have b: "unpack zero_block example_partial = (zero_block\<lparr>Slot := 7\<rparr>, Some (New ''proposer index missing''))"
    by (rule unpack_proposer_missing) (simp add: example_partial_def)
  show ?thesis
    using error_keeps_later_fields [where parse = "\<lambda>s. example_tree"
        and body_UnmarshalJSON = unit_UnmarshalJSON and input = "[]"
        and ?e0.0 = "SyntaxError ''unexpected end of JSON input''" and b = zero_block
        and j = example_partial and b' = "zero_block\<lparr>Slot := 7\<rparr>"
        and e = "New ''proposer index missing''"] a b
    by simp
qed


lemma example_decimal: "decimal (Suc 0) = ''1''" "decimal 2 = ''2''"
  by (simp_all add: decimal.simps digit_char_def)

text \<open>
  C5 as stated fails for YAML: the struct handed to the YAML encoder holds slot and
  proposer index as \<^verbatim>\<open>uint64\<close>, and they are written as numbers, not as strings.
\<close>

theorem YAML_integer_counterexample:
  "encode_beaconBlockYAML unit_MarshalJSON (beaconBlockYAML_of example_block)
     = Inr (TObject [(''slot'', TNumber ''1''), (''proposer_index'', TNumber ''2''),
                     (''parent_root'', TString example_hex), (''state_root'', TString example_hex),
                     (''body'', TObject [])])
   \<and> TNumber ''1'' \<noteq> TString ''1''"
  by (simp add: encode_beaconBlockYAML_def encode_body_def beaconBlockYAML_of_def example_block_def
      unit_MarshalJSON_def example_decimal example_Sprintf_hex)

text \<open>
  C5, amended. For every block, the JSON encoder writes slot and proposer index as
  strings of their decimal digits, and the YAML encoder writes them as numbers (the same
  digits, bare); the roots are strings in both. \<^verbatim>\<open>MarshalJSON\<close> is the text of the first tree,
  \<^verbatim>\<open>MarshalYAML\<close> the flow text of the second with every double quote replaced by a single
  quote.
\<close>

theorem integer_rendering:
  "encode_beaconBlockJSON body_MarshalJSON (beaconBlockJSON_of b) =
     (case encode_body body_MarshalJSON (Body b) of
        Inl e \<Rightarrow> Inl e
      | Inr body \<Rightarrow>
          Inr (TObject [(''slot'', TString (decimal (unat (Slot b)))),
                        (''proposer_index'', TString (decimal (unat (ProposerIndex b)))),
                        (''parent_root'', TString (Sprintf_hex (ParentRoot b))),
                        (''state_root'', TString (Sprintf_hex (StateRoot b))),
                        (''body'', body)]))
   \<and> encode_beaconBlockYAML body_MarshalYAML (beaconBlockYAML_of b) =
     (case encode_body body_MarshalYAML (Body b) of
        Inl e \<Rightarrow> Inl e
      | Inr body \<Rightarrow>
          Inr (TObject [(''slot'', TNumber (decimal (unat (Slot b)))),
                        (''proposer_index'', TNumber (decimal (unat (ProposerIndex b)))),
                        (''parent_root'', TString (Sprintf_hex (ParentRoot b))),
                        (''state_root'', TString (Sprintf_hex (StateRoot b))),
                        (''body'', body)]))
   \<and> list_all is_digit (decimal (unat (Slot b)))
   \<and> list_all is_digit (decimal (unat (ProposerIndex b)))
   \<and> MarshalJSON render body_MarshalJSON b =
       map_sum id render (encode_beaconBlockJSON body_MarshalJSON (beaconBlockJSON_of b))
   \<and> MarshalYAML render_flow body_MarshalYAML b =
       map_sum id (\<lambda>t. ReplaceAll (render_flow t) (CHR 0x22) (CHR 0x27))
         (encode_beaconBlockYAML body_MarshalYAML (beaconBlockYAML_of b))"
  by (simp add: encode_beaconBlockJSON_def encode_beaconBlockYAML_def beaconBlockJSON_of_def
      beaconBlockYAML_of_def Sprintf_d_def decimal_digits MarshalJSON_def MarshalYAML_def
      json_Marshal_def yaml_MarshalWithOptions_def split: sum.splits)

subsection \<open>Decoding an object into the struct\<close>

lemma unpack_None:
  assumes "unpack b j = (b', None)"
  shows "\<exists>s p pr sr bd. slot_ok j s \<and> proposer_ok j p \<and> root_ok (ParentRoot_JSON j) pr
         \<and> root_ok (StateRoot_JSON j) sr \<and> Body_JSON j = Some bd
         \<and> b' = b\<lparr>Slot := s, ProposerIndex := p, ParentRoot := copy (ParentRoot b) pr,
                    StateRoot := copy (StateRoot b) sr, Body := Some bd\<rparr>"
  using unpack_outcomes [OF assms] by simp

lemma unpack_fails_on_empty_field:
  assumes "Slot_JSON j = [] \<or> ProposerIndex_JSON j = [] \<or> ParentRoot_JSON j = []
           \<or> StateRoot_JSON j = [] \<or> Body_JSON j = None"
  shows "snd (unpack b j) \<noteq> None"
proof
  assume "snd (unpack b j) = None"
  then have "unpack b j = (fst (unpack b j), None)" by (metis prod.collapse)
  from unpack_None [OF this] assms show False
    by (auto simp: slot_ok_def proposer_ok_def root_ok_def)
qed


lemma store_members_append:
  "store_members dec st (xs @ ys) =
     (case store_members dec st xs of Inl e \<Rightarrow> Inl e | Inr st' \<Rightarrow> store_members dec st' ys)"
  by (induction xs arbitrary: st) (auto split: sum.splits)

lemma get_string_field_Body_update [simp]:
  "get_string_field f (j\<lparr>Body_JSON := x\<rparr>) = get_string_field f j"
  by (simp add: get_string_field_def)

lemma get_string_field_set_other:
  "f' \<noteq> f \<Longrightarrow> get_string_field f (set_string_field f' s j) = get_string_field f j"
  by (auto simp: get_string_field_def set_string_field_def)

lemma Body_JSON_set_string_field [simp]: "Body_JSON (set_string_field f' s j) = Body_JSON j"
  by (simp add: set_string_field_def)

lemma store_member_keeps_string:
  assumes "store_member dec (j, sv) (k, v) = Inr (j', sv')" "find_field k \<noteq> Some f"
  shows "get_string_field f j' = get_string_field f j"
proof (cases "find_field k")
  case None
  then show ?thesis using assms(1) by (simp add: store_member_def)
next
  case (Some f')
  then have ne: "f' \<noteq> f" using assms(2) by simp
  show ?thesis
  proof (cases "f' = ''body''")
    case True
    then show ?thesis
      using assms(1) Some
      by (cases v) (auto simp: store_member_def split: sum.splits)
  next
    case False
    then show ?thesis
      using assms(1) Some get_string_field_set_other [OF ne]
      by (cases v) (auto simp: store_member_def)
  qed
qed


lemma store_members_keeps_string:
  "store_members dec st ms = Inr st' \<Longrightarrow> \<not> selects f ms
     \<Longrightarrow> get_string_field f (fst st') = get_string_field f (fst st)"
proof (induction ms arbitrary: st)
  case Nil
  then show ?case by simp
next
  case (Cons m ms)
  obtain k v where m: "m = (k, v)" by (cases m)
  obtain j sv where st: "st = (j, sv)" by (cases st)
  from Cons.prems(1) obtain st1 where s1: "store_member dec st m = Inr st1"
    and s2: "store_members dec st1 ms = Inr st'"
    by (auto split: sum.splits)
  obtain j1 sv1 where st1: "st1 = (j1, sv1)" by (cases st1)
  have nf: "find_field k \<noteq> Some f" "\<not> selects f ms"
    using Cons.prems(2) m by (simp_all add: selects_def)
  have "get_string_field f j1 = get_string_field f j"
    using store_member_keeps_string [of dec j sv k v j1 sv1 f] s1 m st st1 nf by simp
  moreover have "get_string_field f (fst st') = get_string_field f (fst st1)"
    by (rule Cons.IH [OF s2 nf(2)])
  ultimately show ?case using st st1 by simp
qed





subsection \<open>Missing members\<close>

lemma UnmarshalJSON_object:
  assumes "checkValid input = None" "parse input = TObject ms"
  shows "UnmarshalJSON parse dec b input =
     (case decode_beaconBlockJSON dec (TObject ms) of
        Inl e \<Rightarrow> (b, Some (Wrap e ''invalid JSON''))
      | Inr j \<Rightarrow> unpack b j)"
  using assms by (simp add: UnmarshalJSON_def json_Unmarshal_def)



lemma example_find_field:
  "find_field ''slot'' = Some ''slot''" "find_field ''proposer_index'' = Some ''proposer_index''"
  "find_field ''parent_root'' = Some ''parent_root''" "find_field ''state_root'' = Some ''state_root''"
  "find_field ''body'' = Some ''body''"
  by (simp_all add: find_field_def field_names_def)



lemma example_not_selected:
  "\<not> selects ''proposer_index'' missing_proposer_members"
  "\<not> selects ''proposer_index'' bad_slot_members"
  by (simp_all add: selects_def missing_proposer_members_def bad_slot_members_def example_find_field)




subsection \<open>The length of the roots\<close>

text \<open>
  C7, amended. Once slot and proposer index have been decoded, a parent root whose
  hexadecimal text decodes to a number of bytes other than 32 (31 or 33, say) is rejected
  with "incorrect length for parent root"; once the parent root is good too, the same
  holds of the state root with "incorrect length for state root"; and with both roots of
  exactly 32 bytes and a body present the input is accepted. When an earlier field is
  bad, its error is returned instead.
\<close>

theorem root_length_check:
  assumes "slot_ok j s" "proposer_ok j p"
  shows
   "(\<forall>pr. ParentRoot_JSON j \<noteq> [] \<and> DecodeString (TrimPrefix (ParentRoot_JSON j) ''0x'') = Inr pr
          \<and> length pr \<noteq> RootLength
        \<longrightarrow> unpack b j = (b\<lparr>Slot := s, ProposerIndex := p\<rparr>,
                           Some (New ''incorrect length for parent root'')))
    \<and> (\<forall>pr sr. root_ok (ParentRoot_JSON j) pr \<and> StateRoot_JSON j \<noteq> []
          \<and> DecodeString (TrimPrefix (StateRoot_JSON j) ''0x'') = Inr sr \<and> length sr \<noteq> RootLength
        \<longrightarrow> unpack b j = (b\<lparr>Slot := s, ProposerIndex := p, ParentRoot := copy (ParentRoot b) pr\<rparr>,
                           Some (New ''incorrect length for state root'')))
    \<and> (\<forall>pr sr bd. root_ok (ParentRoot_JSON j) pr \<and> root_ok (StateRoot_JSON j) sr
          \<and> Body_JSON j = Some bd
        \<longrightarrow> unpack b j = (b\<lparr>Slot := s, ProposerIndex := p, ParentRoot := copy (ParentRoot b) pr,
                             StateRoot := copy (StateRoot b) sr, Body := Some bd\<rparr>, None))"
  using unpack_parent_length [OF assms, of _ b] unpack_state_length [OF assms, of _ _ b]
    unpack_accepts [OF assms, of _ _ _ b]
  by simp

lemma example_roots:
  "take 64 example_hex = Sprintf_hex (replicate 31 0)"
  "example_hex @ ''00'' = Sprintf_hex (replicate 33 0)"
  "example_hex = Sprintf_hex (replicate 32 0)"
  by code_simp+

lemma example_root_decodes:
  "DecodeString (TrimPrefix (take 64 example_hex) ''0x'') = Inr (replicate 31 0)"
  "DecodeString (TrimPrefix (example_hex @ ''00'') ''0x'') = Inr (replicate 33 0)"
  "DecodeString (TrimPrefix example_hex ''0x'') = Inr (replicate 32 0)"
  by (simp only: example_roots(1) TrimPrefix_Sprintf_hex DecodeString_EncodeToString,
      simp only: example_roots(2) TrimPrefix_Sprintf_hex DecodeString_EncodeToString,
      simp only: example_roots(3) TrimPrefix_Sprintf_hex DecodeString_EncodeToString)

lemma example_hex_not_Nil: "take 64 example_hex \<noteq> []" "example_hex \<noteq> []" "example_hex @ ''00'' \<noteq> []"
  by (simp_all add: example_hex_def)

text \<open>
  C7 as stated fails: with the slot missing, a parent root of 31 bytes is not reported;
  the error is "slot missing".
\<close>

theorem root_length_counterexample:
  "DecodeString (TrimPrefix (ParentRoot_JSON example_short_root) ''0x'') = Inr (replicate 31 0)
   \<and> length (replicate 31 (0 :: byte)) = 31
   \<and> unpack zero_block example_short_root = (zero_block, Some (New ''slot missing''))"
proof -
  have "unpack zero_block example_short_root = (zero_block, Some (New ''slot missing''))"
    by (rule unpack_slot_missing) (simp add: example_short_root_def)
  moreover have "ParentRoot_JSON example_short_root = take 64 example_hex"
    by (simp add: example_short_root_def)
  ultimately show ?thesis
    using example_root_decodes(1) by simp
qed

theorem root_length_check_witness:
  "slot_ok example_root31 1 \<and> proposer_ok example_root31 2
   \<and> slot_ok example_root33 1 \<and> proposer_ok example_root33 2
   \<and> DecodeString (TrimPrefix (ParentRoot_JSON example_root31) ''0x'') = Inr (replicate 31 0)
   \<and> DecodeString (TrimPrefix (ParentRoot_JSON example_root33) ''0x'') = Inr (replicate 33 0)
   \<and> unpack zero_block example_root31
       = (zero_block\<lparr>Slot := 1, ProposerIndex := 2\<rparr>, Some (New ''incorrect length for parent root''))
   \<and> unpack zero_block example_root33
       = (zero_block\<lparr>Slot := 1, ProposerIndex := 2\<rparr>, Some (New ''incorrect length for parent root''))"
proof -
  have a: "slot_ok example_root31 1" "proposer_ok example_root31 2"
    by (simp_all add: slot_ok_def proposer_ok_def example_root31_def example_ParseUint)
  have b: "slot_ok example_root33 1" "proposer_ok example_root33 2"
    by (simp_all add: slot_ok_def proposer_ok_def example_root33_def example_ParseUint)
  have c: "ParentRoot_JSON example_root31 = take 64 example_hex"
    "ParentRoot_JSON example_root33 = example_hex @ ''00''"
    by (simp_all add: example_root31_def example_root33_def)
  show ?thesis
    using root_length_check [OF a, of zero_block] root_length_check [OF b, of zero_block]
      a b example_root_decodes example_hex_not_Nil
    by (simp add: c RootLength_def)
qed

subsection \<open>Empty string fields\<close>

lemma set_string_field_empty:
  assumes "get_string_field f j = []"
  shows "set_string_field f [] j = j"
proof -
  have a: "j\<lparr>Slot_JSON := Slot_JSON j\<rparr> = j" "j\<lparr>ProposerIndex_JSON := ProposerIndex_JSON j\<rparr> = j"
    "j\<lparr>ParentRoot_JSON := ParentRoot_JSON j\<rparr> = j" "j\<lparr>StateRoot_JSON := StateRoot_JSON j\<rparr> = j"
    by simp_all
  consider "f = ''slot''" | "f = ''proposer_index''" | "f = ''parent_root''" | "f = ''state_root''"
    | "f \<noteq> ''slot''" "f \<noteq> ''proposer_index''" "f \<noteq> ''parent_root''" "f \<noteq> ''state_root''"
    by blast
  then show ?thesis
  proof cases
    case 1
    then have "Slot_JSON j = []" using assms by (simp add: get_string_field_def)
    then show ?thesis using a(1) 1 by (simp add: set_string_field_def)
  next
    case 2
    then have "ProposerIndex_JSON j = []" using assms by (simp add: get_string_field_def)
    then show ?thesis using a(2) 2 by (simp add: set_string_field_def)
  next
    case 3
    then have "ParentRoot_JSON j = []" using assms by (simp add: get_string_field_def)
    then show ?thesis using a(3) 3 by (simp add: set_string_field_def)
  next
    case 4
    then have "StateRoot_JSON j = []" using assms by (simp add: get_string_field_def)
    then show ?thesis using a(4) 4 by (simp add: set_string_field_def)
  next
    case 5
    then show ?thesis by (simp add: set_string_field_def)
  qed
qed

lemma store_member_empty_string:
  assumes "find_field k = Some f" "f \<noteq> ''body''" "get_string_field f (fst st) = []"
  shows "store_member dec st (k, TString []) = Inr st"
  using assms set_string_field_empty [of f "fst st"]
  by (cases st) (simp add: store_member_def)

lemma decode_empty_string_member:
  assumes k: "find_field k = Some f" "f \<noteq> ''body''" and ns: "\<not> selects f (ms1 @ ms2)"
  shows "decode_beaconBlockJSON dec (TObject (ms1 @ (k, TString []) # ms2))
       = decode_beaconBlockJSON dec (TObject (ms1 @ ms2))"
proof -
  have ns1: "\<not> selects f ms1" using ns by (simp add: selects_def)
  have "store_members dec (zero_beaconBlockJSON, None) (ms1 @ (k, TString []) # ms2)
      = store_members dec (zero_beaconBlockJSON, None) (ms1 @ ms2)"
  proof (cases "store_members dec (zero_beaconBlockJSON, None) ms1")
    case (Inl e)
    then show ?thesis by (simp add: store_members_append)
  next
    case (Inr st1)
    have "get_string_field f (fst st1) = get_string_field f (fst (zero_beaconBlockJSON :: 'a beaconBlockJSON, None :: error option))"
      by (rule store_members_keeps_string [OF Inr ns1])
    then have "get_string_field f (fst st1) = []"
      by (simp add: get_string_field_def zero_beaconBlockJSON_def)
    then have "store_member dec st1 (k, TString []) = Inr st1"
      by (rule store_member_empty_string [OF k])
    then show ?thesis using Inr by (simp add: store_members_append)
  qed
  then show ?thesis by (simp add: decode_beaconBlockJSON_def)
qed


text \<open>
  C9, amended. A string field that is present but empty is treated exactly like an
  absent one: a document with the member \<open>k\<close> (selecting slot, proposer index, parent root
  or state root, given once) equal to the empty string decodes into the same struct as
  the document without that member, so the outcome is the same. An empty string field
  always makes \<^verbatim>\<open>unpack\<close> fail, and the error is "slot missing", "proposer index missing",
  "parent root missing" or "state root missing" for that field whenever every field
  before it is valid (otherwise the error of the first failing field is returned, as it
  is when the field is omitted).
\<close>

theorem empty_field_like_absent:
  "(find_field k = Some f \<and> f \<noteq> ''body'' \<and> \<not> selects f (ms1 @ ms2)
      \<longrightarrow> decode_beaconBlockJSON dec (TObject (ms1 @ (k, TString []) # ms2))
            = decode_beaconBlockJSON dec (TObject (ms1 @ ms2)))
   \<and> (Slot_JSON j = [] \<or> ProposerIndex_JSON j = [] \<or> ParentRoot_JSON j = [] \<or> StateRoot_JSON j = []
      \<longrightarrow> snd (unpack b j) \<noteq> None)
   \<and> (Slot_JSON j = [] \<longrightarrow> unpack b j = (b, Some (New ''slot missing'')))
   \<and> (\<forall>s. slot_ok j s \<and> ProposerIndex_JSON j = []
        \<longrightarrow> unpack b j = (b\<lparr>Slot := s\<rparr>, Some (New ''proposer index missing'')))
   \<and> (\<forall>s p. slot_ok j s \<and> proposer_ok j p \<and> ParentRoot_JSON j = []
        \<longrightarrow> unpack b j = (b\<lparr>Slot := s, ProposerIndex := p\<rparr>, Some (New ''parent root missing'')))
   \<and> (\<forall>s p pr. slot_ok j s \<and> proposer_ok j p \<and> root_ok (ParentRoot_JSON j) pr \<and> StateRoot_JSON j = []
        \<longrightarrow> unpack b j = (b\<lparr>Slot := s, ProposerIndex := p, ParentRoot := copy (ParentRoot b) pr\<rparr>,
                           Some (New ''state root missing'')))"
  using decode_empty_string_member [of k f ms1 ms2 dec] unpack_fails_on_empty_field [of j b]
    unpack_slot_missing [of j b] unpack_proposer_missing [of j _ b]
    unpack_parent_missing [of j _ _ b] unpack_state_missing [of j _ _ _ b]
  by simp


text \<open>
  C9 as stated fails: with a slot that is not a number, an empty proposer index is not
  reported as missing; the error is that of the slot.
\<close>

theorem empty_field_counterexample:
  "ProposerIndex_JSON example_bad_slot = []
   \<and> unpack zero_block example_bad_slot
     = (zero_block, Some (Wrap (NumError ''ParseUint'' ''x'' ErrSyntax) ''invalid value for slot''))"
proof -
  have "unpack zero_block example_bad_slot
     = (zero_block, Some (Wrap (NumError ''ParseUint'' ''x'' ErrSyntax) ''invalid value for slot''))"
    by (rule unpack_slot_invalid) (simp_all add: example_bad_slot_def example_ParseUint)
  then show ?thesis by (simp add: example_bad_slot_def)
qed

theorem empty_field_like_absent_witness:
  "find_field ''proposer_index'' = Some ''proposer_index''
   \<and> \<not> selects ''proposer_index'' missing_proposer_members
   \<and> decode_beaconBlockJSON unit_UnmarshalJSON
         (TObject [(''slot'', TString ''7''), (''proposer_index'', TString []),
                   (''parent_root'', TString example_hex), (''state_root'', TString example_hex),
                   (''body'', TObject [])])
       = decode_beaconBlockJSON unit_UnmarshalJSON (TObject missing_proposer_members)
   \<and> slot_ok example_partial 7 \<and> ProposerIndex_JSON example_partial = []
   \<and> unpack zero_block example_partial = (zero_block\<lparr>Slot := 7\<rparr>, Some (New ''proposer index missing''))"
proof -
  have s: "slot_ok example_partial 7"
    by (simp add: slot_ok_def example_partial_def example_ParseUint)
  have e: "ProposerIndex_JSON example_partial = []" by (simp add: example_partial_def)
  have ns: "\<not> selects ''proposer_index'' ([(''slot'', TString ''7'')] @ [(''parent_root'', TString example_hex),
      (''state_root'', TString example_hex), (''body'', TObject [])])"
    by (simp add: selects_def example_find_field)
  show ?thesis
    using empty_field_like_absent [where k = "''proposer_index''" and f = "''proposer_index''"
        and ?ms1.0 = "[(''slot'', TString ''7'')]"
        and ?ms2.0 = "[(''parent_root'', TString example_hex),
                       (''state_root'', TString example_hex), (''body'', TObject [])]"
        and dec = unit_UnmarshalJSON and j = example_partial and b = zero_block]
      s e ns example_find_field(2) example_not_selected(1)
    by (simp add: missing_proposer_members_def)
qed

subsection \<open>The prefix of a root\<close>

lemma unpack_stores_ParentRoot:
  assumes "Slot_JSON j \<noteq> []" "ParseUint (Slot_JSON j) = Inr sl"
    and "ProposerIndex_JSON j \<noteq> []" "ParseUint (ProposerIndex_JSON j) = Inr p"
    and "ParentRoot_JSON j \<noteq> []" "DecodeString (TrimPrefix (ParentRoot_JSON j) ''0x'') = Inr bs"
        "length bs = RootLength"
  shows "ParentRoot (fst (unpack b j)) = copy (ParentRoot b) bs"
  using assms by (auto simp: unpack_def Let_def split: sum.splits)

lemma named_checks_update [simp]:
  "slot_ok (j\<lparr>ParentRoot_JSON := t\<rparr>) sl = slot_ok j sl"
  "slot_ok (j\<lparr>StateRoot_JSON := t\<rparr>) sl = slot_ok j sl"
  "proposer_ok (j\<lparr>ParentRoot_JSON := t\<rparr>) p = proposer_ok j p"
  "proposer_ok (j\<lparr>StateRoot_JSON := t\<rparr>) p = proposer_ok j p"
  by (simp_all add: slot_ok_def proposer_ok_def)

lemma unpack_stores_StateRoot:
  assumes "slot_ok j sl" "proposer_ok j p" "root_ok (ParentRoot_JSON j) pr" "root_ok (StateRoot_JSON j) sr"
  shows "StateRoot (fst (unpack b j)) = copy (StateRoot b) sr"
proof (cases "Body_JSON j")
  case None
  then show ?thesis using unpack_body_missing [OF assms, of b] by simp
next
  case (Some bd)
  then show ?thesis using unpack_accepts [OF assms, of bd b] by simp
qed

text \<open>
  C10. A root may be written with or without the prefix \<^verbatim>\<open>0x\<close>: for every string \<open>s\<close> of 64
  hexadecimal digits, the decoding of \<open>s\<close> and of \<^verbatim>\<open>0x\<close> followed by \<open>s\<close> (as \<^verbatim>\<open>unpack\<close> does
  it for the parent root and for the state root) give the same 32 bytes \<open>bs\<close>. In both
  forms \<^verbatim>\<open>unpack\<close> stores \<open>bs\<close> as the parent root once slot and proposer index have been
  decoded, and as the state root once slot, proposer index and parent root have been
  decoded; when the other fields are good and the body is present it accepts the input,
  with \<open>bs\<close> in the root. For any other fields at all, \<^verbatim>\<open>unpack\<close> returns the same receiver
  and the same error for both forms.
\<close>

theorem hex_prefix_optional:
  assumes "length s = 64" "list_all is_hex s"
  shows "(\<exists>bs. length bs = RootLength
            \<and> DecodeString (TrimPrefix s ''0x'') = Inr bs
            \<and> DecodeString (TrimPrefix (''0x'' @ s) ''0x'') = Inr bs
            \<and> (\<forall>sl p. Slot_JSON j \<noteq> [] \<and> ParseUint (Slot_JSON j) = Inr sl
                  \<and> ProposerIndex_JSON j \<noteq> [] \<and> ParseUint (ProposerIndex_JSON j) = Inr p
                \<longrightarrow> ParentRoot (fst (unpack b (j\<lparr>ParentRoot_JSON := s\<rparr>))) = copy (ParentRoot b) bs
                  \<and> ParentRoot (fst (unpack b (j\<lparr>ParentRoot_JSON := ''0x'' @ s\<rparr>))) = copy (ParentRoot b) bs)
            \<and> (\<forall>sl p pr. slot_ok j sl \<and> proposer_ok j p \<and> root_ok (ParentRoot_JSON j) pr
                \<longrightarrow> StateRoot (fst (unpack b (j\<lparr>StateRoot_JSON := s\<rparr>))) = copy (StateRoot b) bs
                  \<and> StateRoot (fst (unpack b (j\<lparr>StateRoot_JSON := ''0x'' @ s\<rparr>))) = copy (StateRoot b) bs)
            \<and> (\<forall>sl p sr bd. slot_ok j sl \<and> proposer_ok j p \<and> root_ok (StateRoot_JSON j) sr
                  \<and> Body_JSON j = Some bd
                \<longrightarrow> unpack b (j\<lparr>ParentRoot_JSON := s\<rparr>)
                      = (b\<lparr>Slot := sl, ProposerIndex := p, ParentRoot := copy (ParentRoot b) bs,
                            StateRoot := copy (StateRoot b) sr, Body := Some bd\<rparr>, None)
                  \<and> unpack b (j\<lparr>ParentRoot_JSON := ''0x'' @ s\<rparr>)
                      = (b\<lparr>Slot := sl, ProposerIndex := p, ParentRoot := copy (ParentRoot b) bs,
                            StateRoot := copy (StateRoot b) sr, Body := Some bd\<rparr>, None))
            \<and> (\<forall>sl p pr bd. slot_ok j sl \<and> proposer_ok j p \<and> root_ok (ParentRoot_JSON j) pr
                  \<and> Body_JSON j = Some bd
                \<longrightarrow> unpack b (j\<lparr>StateRoot_JSON := s\<rparr>)
                      = (b\<lparr>Slot := sl, ProposerIndex := p, ParentRoot := copy (ParentRoot b) pr,
                            StateRoot := copy (StateRoot b) bs, Body := Some bd\<rparr>, None)
                  \<and> unpack b (j\<lparr>StateRoot_JSON := ''0x'' @ s\<rparr>)
                      = (b\<lparr>Slot := sl, ProposerIndex := p, ParentRoot := copy (ParentRoot b) pr,
                            StateRoot := copy (StateRoot b) bs, Body := Some bd\<rparr>, None)))
       \<and> unpack b (j\<lparr>ParentRoot_JSON := ''0x'' @ s\<rparr>) = unpack b (j\<lparr>ParentRoot_JSON := s\<rparr>)
       \<and> unpack b (j\<lparr>StateRoot_JSON := ''0x'' @ s\<rparr>) = unpack b (j\<lparr>StateRoot_JSON := s\<rparr>)"
proof -
  have ne: "s \<noteq> []" using assms(1) by auto
  obtain bs where bs: "DecodeString s = Inr bs" "2 * length bs = length s"
    using DecodeString_hex [OF assms(2)] assms(1) by auto
  have len: "length bs = RootLength" using bs(2) assms(1) by (simp add: RootLength_def)
  have trim: "TrimPrefix s ''0x'' = s" by (rule TrimPrefix_hex [OF assms(2)])
  have ok: "root_ok s bs" using ne bs(1) len trim by (simp add: root_ok_def)
  have pp: "unpack b (j\<lparr>ParentRoot_JSON := ''0x'' @ s\<rparr>) = unpack b (j\<lparr>ParentRoot_JSON := s\<rparr>)"
    by (rule unpack_ParentRoot_prefix [OF assms(2) ne])
  have sp: "unpack b (j\<lparr>StateRoot_JSON := ''0x'' @ s\<rparr>) = unpack b (j\<lparr>StateRoot_JSON := s\<rparr>)"
    by (rule unpack_StateRoot_prefix [OF assms(2) ne])
  have c1: "ParentRoot (fst (unpack b (j\<lparr>ParentRoot_JSON := s\<rparr>))) = copy (ParentRoot b) bs"
    if "Slot_JSON j \<noteq> [] \<and> ParseUint (Slot_JSON j) = Inr sl
        \<and> ProposerIndex_JSON j \<noteq> [] \<and> ParseUint (ProposerIndex_JSON j) = Inr p" for sl p
    by (rule unpack_stores_ParentRoot [where sl = sl and p = p]) (use that ne trim bs len in simp_all)
  have c2: "StateRoot (fst (unpack b (j\<lparr>StateRoot_JSON := s\<rparr>))) = copy (StateRoot b) bs"
    if "slot_ok j sl \<and> proposer_ok j p \<and> root_ok (ParentRoot_JSON j) pr" for sl p pr
    by (rule unpack_stores_StateRoot [where sl = sl and p = p and pr = pr]) (use that ok in simp_all)
  have c3: "unpack b (j\<lparr>ParentRoot_JSON := s\<rparr>)
        = (b\<lparr>Slot := sl, ProposerIndex := p, ParentRoot := copy (ParentRoot b) bs,
              StateRoot := copy (StateRoot b) sr, Body := Some bd\<rparr>, None)"
    if "slot_ok j sl \<and> proposer_ok j p \<and> root_ok (StateRoot_JSON j) sr \<and> Body_JSON j = Some bd"
    for sl p sr bd
    by (rule unpack_accepts) (use that ok in simp_all)
  have c4: "unpack b (j\<lparr>StateRoot_JSON := s\<rparr>)
        = (b\<lparr>Slot := sl, ProposerIndex := p, ParentRoot := copy (ParentRoot b) pr,
              StateRoot := copy (StateRoot b) bs, Body := Some bd\<rparr>, None)"
    if "slot_ok j sl \<and> proposer_ok j p \<and> root_ok (ParentRoot_JSON j) pr \<and> Body_JSON j = Some bd"
    for sl p pr bd
    by (rule unpack_accepts) (use that ok in simp_all)
  have d: "DecodeString (TrimPrefix (''0x'' @ s) ''0x'') = Inr bs"
    using bs(1) TrimPrefix_0x [of s] by simp
  have e: "DecodeString (TrimPrefix s ''0x'') = Inr bs" using bs(1) trim by simp
  show ?thesis
    unfolding pp sp
    apply (intro conjI exI [of _ bs] allI impI refl)
    apply (rule len, rule e, rule d)
    apply (erule c1, erule c1, erule c2, erule c2, erule c3, erule c3, erule c4, erule c4)
    done
qed

theorem hex_prefix_optional_witness:
  "length (drop 2 example_hex) = 64 \<and> list_all is_hex (drop 2 example_hex)
   \<and> slot_ok (beaconBlockJSON_of example_block) 1 \<and> proposer_ok (beaconBlockJSON_of example_block) 2
   \<and> root_ok (ParentRoot_JSON (beaconBlockJSON_of example_block)) example_root
   \<and> root_ok (StateRoot_JSON (beaconBlockJSON_of example_block)) example_root
   \<and> Body_JSON (beaconBlockJSON_of example_block) = Some ()
   \<and> DecodeString (TrimPrefix (drop 2 example_hex) ''0x'') = Inr example_root
   \<and> DecodeString (TrimPrefix (''0x'' @ drop 2 example_hex) ''0x'') = Inr example_root
   \<and> unpack zero_block ((beaconBlockJSON_of example_block)\<lparr>ParentRoot_JSON := drop 2 example_hex\<rparr>)
     = (example_block, None)
   \<and> unpack zero_block ((beaconBlockJSON_of example_block)\<lparr>ParentRoot_JSON := ''0x'' @ drop 2 example_hex\<rparr>)
     = (example_block, None)
   \<and> unpack zero_block ((beaconBlockJSON_of example_block)\<lparr>StateRoot_JSON := drop 2 example_hex\<rparr>)
     = (example_block, None)
   \<and> unpack zero_block ((beaconBlockJSON_of example_block)\<lparr>StateRoot_JSON := ''0x'' @ drop 2 example_hex\<rparr>)
     = (example_block, None)"
proof -
  have a: "length (drop 2 example_hex) = 64" by (simp add: example_hex_def)
  have b: "list_all is_hex (drop 2 example_hex)" by (simp add: example_hex_def is_hex_def)
  have x: "''0x'' @ drop 2 example_hex = example_hex" by (simp add: example_hex_def)
  have r: "root_ok example_hex example_root"
    using example_root_decodes(3) example_hex_not_Nil(2)
    by (simp add: root_ok_def example_root_def RootLength_def)
  have j: "slot_ok (beaconBlockJSON_of example_block) 1" "proposer_ok (beaconBlockJSON_of example_block) 2"
    "ParentRoot_JSON (beaconBlockJSON_of example_block) = example_hex"
    "StateRoot_JSON (beaconBlockJSON_of example_block) = example_hex"
    "Body_JSON (beaconBlockJSON_of example_block) = Some ()"
    by (simp_all add: slot_ok_def proposer_ok_def beaconBlockJSON_of_def example_block_def
        example_Sprintf_d example_Sprintf_hex example_ParseUint)
  have d: "DecodeString (TrimPrefix (''0x'' @ drop 2 example_hex) ''0x'') = Inr example_root"
    using example_root_decodes(3) by (simp only: x example_root_def)
  have c: "copy (ParentRoot zero_block) example_root = example_root"
    "copy (StateRoot zero_block) example_root = example_root"
    by (simp_all add: copy_same_length zero_block_def example_root_def)
  have z: "zero_block\<lparr>Slot := 1, ProposerIndex := 2, ParentRoot := example_root,
      StateRoot := example_root, Body := Some ()\<rparr> = example_block"
    by (simp add: zero_block_def example_block_def)
  show ?thesis
    using hex_prefix_optional [OF a b, of "beaconBlockJSON_of example_block" zero_block] a b r j d
    by (auto simp: c z)
qed

end
